theory Spec2Isabelle
  imports Complex_Main
begin

section \<open>Numbers\<close>

text \<open>
  The service computes with JavaScript numbers. A finite double is modelled by the real
  it denotes (rounding is not modelled); the three non-finite values are kept, because
  \<^verbatim>\<open>inverseNormalCDF\<close> returns \<^verbatim>\<open>Infinity\<close> and \<^verbatim>\<open>-Infinity\<close> explicitly and the
  optimizer computes with them. The values of the cost, budget and capacity tables are
  finite (their parsers reject or replace \<^verbatim>\<open>NaN\<close>) and are typed \<^typ>\<open>real\<close>; the fields
  of a forecast record are numbers, since \<^verbatim>\<open>parseCSV\<close> passes on what \<^verbatim>\<open>parseFloat\<close>
  returns, \<^verbatim>\<open>NaN\<close> for a malformed field.
\<close>

datatype number = Fin real | PInf | NInf | NaN

text \<open>The infinity with the sign of a finite factor; \<^verbatim>\<open>Infinity * 0\<close> is \<^verbatim>\<open>NaN\<close>.\<close>

definition signedInf :: "real \<Rightarrow> number" where
  "signedInf r = (if 0 < r then PInf else if r < 0 then NInf else NaN)"

fun add :: "number \<Rightarrow> number \<Rightarrow> number" where
  "add (Fin a) (Fin b) = Fin (a + b)"
| "add (Fin a) PInf = PInf"
| "add (Fin a) NInf = NInf"
| "add PInf (Fin b) = PInf"
| "add PInf PInf = PInf"
| "add PInf NInf = NaN"
| "add NInf (Fin b) = NInf"
| "add NInf PInf = NaN"
| "add NInf NInf = NInf"
| "add NaN y = NaN"
| "add x NaN = NaN"

fun mul :: "number \<Rightarrow> number \<Rightarrow> number" where
  "mul (Fin a) (Fin b) = Fin (a * b)"
| "mul (Fin a) PInf = signedInf a"
| "mul (Fin a) NInf = signedInf (- a)"
| "mul PInf (Fin b) = signedInf b"
| "mul PInf PInf = PInf"
| "mul PInf NInf = NInf"
| "mul NInf (Fin b) = signedInf (- b)"
| "mul NInf PInf = NInf"
| "mul NInf NInf = PInf"
| "mul NaN y = NaN"
| "mul x NaN = NaN"

text \<open>Subtraction is the addition of the negated number.\<close>

fun negate :: "number \<Rightarrow> number" where
  "negate (Fin a) = Fin (- a)"
| "negate PInf = NInf"
| "negate NInf = PInf"
| "negate NaN = NaN"

definition sub :: "number \<Rightarrow> number \<Rightarrow> number" where
  "sub a b = add a (negate b)"

text \<open>
  Division of two finite numbers. A zero divisor arises in the service only as
  \<^verbatim>\<open>p - 0\<close> with \<^verbatim>\<open>p = shortageCost + 10\<close> or as a sum \<^verbatim>\<open>... + 1\<close>, which are the
  positive zero.
\<close>

definition divide :: "real \<Rightarrow> real \<Rightarrow> number" where
  "divide a b = (if b = 0 then signedInf a else Fin (a / b))"

text \<open>
  Division of numbers. The divisors of the service are \<^verbatim>\<open>2 * 1.96\<close> and
  \<^verbatim>\<open>Math.max(forecast, 1)\<close>; an infinite number divided by a finite one takes the sign of
  the divisor into account, a zero divisor being the positive zero.
\<close>

fun quot :: "number \<Rightarrow> number \<Rightarrow> number" where
  "quot (Fin a) (Fin b) = divide a b"
| "quot (Fin a) PInf = Fin 0"
| "quot (Fin a) NInf = Fin 0"
| "quot PInf (Fin b) = (if b < 0 then NInf else PInf)"
| "quot NInf (Fin b) = (if b < 0 then PInf else NInf)"
| "quot PInf PInf = NaN"
| "quot PInf NInf = NaN"
| "quot NInf PInf = NaN"
| "quot NInf NInf = NaN"
| "quot NaN y = NaN"
| "quot x NaN = NaN"

text \<open>The comparisons \<^verbatim>\<open><=\<close>, \<^verbatim>\<open><\<close>: false as soon as one side is \<^verbatim>\<open>NaN\<close>.\<close>

fun le :: "number \<Rightarrow> number \<Rightarrow> bool" where
  "le NaN y = False"
| "le x NaN = False"
| "le NInf y = True"
| "le x PInf = True"
| "le PInf y = False"
| "le x NInf = False"
| "le (Fin a) (Fin b) = (a \<le> b)"

fun lt :: "number \<Rightarrow> number \<Rightarrow> bool" where
  "lt NaN y = False"
| "lt x NaN = False"
| "lt PInf y = False"
| "lt x NInf = False"
| "lt NInf y = True"
| "lt x PInf = True"
| "lt (Fin a) (Fin b) = (a < b)"

text \<open>\<^verbatim>\<open>a > b\<close> is \<^verbatim>\<open>b < a\<close>; \<^verbatim>\<open>a !== b\<close> holds of \<^verbatim>\<open>NaN\<close> and itself.\<close>

definition gt :: "number \<Rightarrow> number \<Rightarrow> bool" where
  "gt a b = lt b a"

definition strictNe :: "number \<Rightarrow> number \<Rightarrow> bool" where
  "strictNe a b = (a = NaN \<or> b = NaN \<or> a \<noteq> b)"

text \<open>\<^verbatim>\<open>Math.max\<close>, \<^verbatim>\<open>Math.min\<close>, \<^verbatim>\<open>Math.ceil\<close>, \<^verbatim>\<open>Math.floor\<close>.\<close>

definition mathMax :: "number \<Rightarrow> number \<Rightarrow> number" where
  "mathMax a b = (if a = NaN \<or> b = NaN then NaN else if lt a b then b else a)"

definition mathMin :: "number \<Rightarrow> number \<Rightarrow> number" where
  "mathMin a b = (if a = NaN \<or> b = NaN then NaN else if lt b a then b else a)"

fun mathCeil :: "number \<Rightarrow> number" where
  "mathCeil (Fin a) = Fin (of_int \<lceil>a\<rceil>)"
| "mathCeil x = x"

fun mathFloor :: "number \<Rightarrow> number" where
  "mathFloor (Fin a) = Fin (of_int \<lfloor>a\<rfloor>)"
| "mathFloor x = x"

section \<open>QuantileEngine: \<^verbatim>\<open>inverseNormalCDF\<close>\<close>

definition a0 :: real where "a0 = - 39.69683028665376"
definition a1 :: real where "a1 = 220.9460984245205"
definition a2 :: real where "a2 = - 275.9285104469687"
definition a3 :: real where "a3 = 138.3577518672690"
definition a4 :: real where "a4 = - 30.66479806614201"
definition a5 :: real where "a5 = 2.506628277459239"

definition b1 :: real where "b1 = - 54.47609879822406"
definition b2 :: real where "b2 = 161.5858368580409"
definition b3 :: real where "b3 = - 155.6989798598866"
definition b4 :: real where "b4 = 66.80131188771972"
definition b5 :: real where "b5 = - 13.28068155288572"

definition c0 :: real where "c0 = - 0.007784894002430293"
definition c1 :: real where "c1 = - 0.3223964580411365"
definition c2 :: real where "c2 = - 2.400758277161838"
definition c3 :: real where "c3 = - 2.549732539343734"
definition c4 :: real where "c4 = 4.374664141464968"
definition c5 :: real where "c5 = 2.938163982698783"

definition d1 :: real where "d1 = 0.007784695709041462"
definition d2 :: real where "d2 = 0.3224671290700398"
definition d3 :: real where "d3 = 2.445134137142996"
definition d4 :: real where "d4 = 3.754408661907416"

definition split1 :: real where "split1 = 0.425"
definition split2 :: real where "split2 = 5.0"
definition const1 :: real where "const1 = 0.180625"
definition const2 :: real where "const2 = 1.6"

text \<open>The two rational functions shared by the branches.\<close>

definition polyA :: "real \<Rightarrow> real" where
  "polyA r = ((((a5 * r + a4) * r + a3) * r + a2) * r + a1) * r + a0"

definition polyB :: "real \<Rightarrow> real" where
  "polyB r = ((((b5 * r + b4) * r + b3) * r + b2) * r + b1) * r + 1"

definition polyC :: "real \<Rightarrow> real" where
  "polyC r = ((((c5 * r + c4) * r + c3) * r + c2) * r + c1) * r + c0"

definition polyD :: "real \<Rightarrow> real" where
  "polyD r = (((d4 * r + d3) * r + d2) * r + d1) * r + 1"

text \<open>
  The last \<^verbatim>\<open>else\<close> branch, \<^verbatim>\<open>r = Math.sqrt(-Math.log(1 - p))\<close>. For a finite \<open>p\<close>
  it is entered only with \<open>5 \<le> p\<close>, where \<^verbatim>\<open>Math.log\<close> of the negative \<open>1 - p\<close> is
  \<^verbatim>\<open>NaN\<close> and so is everything computed from it; with \<open>1 - p = 0\<close> the logarithm is
  \<^verbatim>\<open>-Infinity\<close>, \<open>r\<close> is \<^verbatim>\<open>Infinity\<close> and the quotient is \<^verbatim>\<open>Infinity / Infinity\<close>.
\<close>

definition tailBranch :: "real \<Rightarrow> number" where
  "tailBranch p =
     (if 1 - p \<le> 0 then NaN
      else (let r = sqrt (- ln (1 - p)) in
            if r \<le> 5.0 then divide (polyC (r - const2)) (polyD (r - const2))
            else divide (polyC (r - 2.0)) (polyD (r - 2.0))))"

fun inverseNormalCDF :: "number \<Rightarrow> number" where
  "inverseNormalCDF (Fin p) =
     (if p \<le> 0 \<or> p \<ge> 1 then (if p \<le> 0 then NInf else PInf)
      else if p < split1 then
        (let r = const1 - p * p in divide (p * polyA r) (polyB r))
      else if p < split2 then
        (let r = p - 0.5; r2 = r * r in divide (polyA r2 * r) (polyB r2))
      else tailBranch p)"
| "inverseNormalCDF PInf = PInf"
| "inverseNormalCDF NInf = NInf"
| "inverseNormalCDF NaN = NaN"

section \<open>InventoryPlanner: \<^verbatim>\<open>calculateNewsvendorQuantity\<close>\<close>

definition stdDevOf :: "number \<Rightarrow> number \<Rightarrow> number" where
  "stdDevOf confidenceLow confidenceHigh = quot (sub confidenceHigh confidenceLow) (Fin (2 * 1.96))"

definition purchasingPriceOf :: "real \<Rightarrow> real" where
  "purchasingPriceOf shortageCost = shortageCost + 10"

definition criticalRatioOf :: "real \<Rightarrow> real \<Rightarrow> number" where
  "criticalRatioOf holdingCost shortageCost =
     (let p = purchasingPriceOf shortageCost; c = holdingCost; s = 0
      in divide (p - c) (p - s))"

definition calculateNewsvendorQuantity ::
  "number \<Rightarrow> number \<Rightarrow> number \<Rightarrow> real \<Rightarrow> real \<Rightarrow> number" where
  "calculateNewsvendorQuantity demand confidenceLow confidenceHigh holdingCost shortageCost =
     (let mean = demand;
          stdDev = stdDevOf confidenceLow confidenceHigh;
          criticalRatio = criticalRatioOf holdingCost shortageCost;
          zScore = inverseNormalCDF criticalRatio;
          optimalQuantity = add mean (mul stdDev zScore)
      in mathCeil (mathMax (Fin 0) optimalQuantity))"

section \<open>Strings\<close>

text \<open>
  \<^verbatim>\<open>str.split(sep)\<close> for a one-character separator: the list of segments, never empty.
\<close>

fun splitStr :: "char \<Rightarrow> string \<Rightarrow> string list" where
  "splitStr sep [] = [[]]"
| "splitStr sep (x # xs) =
     (if x = sep then [] # splitStr sep xs
      else (case splitStr sep xs of
              [] \<Rightarrow> [[x]]
            | seg # segs \<Rightarrow> (x # seg) # segs))"

text \<open>
  \<^verbatim>\<open>itemId.split('/').pop() || itemId\<close>: the trailing segment of the composite id, and
  the whole id when that segment is the empty string (which is falsy).
\<close>

definition productIdOf :: "string \<Rightarrow> string" where
  "productIdOf itemId =
     (let seg = last (splitStr (CHR ''/'') itemId) in if seg = [] then itemId else seg)"

text \<open>\<^verbatim>\<open>toLowerCase\<close> on the ASCII letters; other characters are left as they are.\<close>

definition toLowerChar :: "char \<Rightarrow> char" where
  "toLowerChar ch =
     (let n = (of_char ch :: nat) in if 65 \<le> n \<and> n \<le> 90 then char_of (n + 32) else ch)"

definition toLowerCase :: "string \<Rightarrow> string" where
  "toLowerCase s = map toLowerChar s"

fun startsWith :: "string \<Rightarrow> string \<Rightarrow> bool" where
  "startsWith s [] = True"
| "startsWith [] (y # ys) = False"
| "startsWith (x # xs) (y # ys) = (x = y \<and> startsWith xs ys)"

text \<open>\<^verbatim>\<open>haystack.includes(needle)\<close>; the empty needle is included in every string.\<close>

fun includesStr :: "string \<Rightarrow> string \<Rightarrow> bool" where
  "includesStr [] needle = (needle = [])"
| "includesStr (x # xs) needle = (startsWith (x # xs) needle \<or> includesStr xs needle)"

section \<open>Data model\<close>

text \<open>
  The records of \<^verbatim>\<open>types/workflow.ts\<close> and the tables the service caches. Field names
  are the source's, prefixed where two interfaces share one (\<^verbatim>\<open>itemId\<close>,
  \<^verbatim>\<open>totalCost\<close>, \<^verbatim>\<open>reasoning\<close>, \<^verbatim>\<open>date\<close>). A date is the time stamp
  \<^verbatim>\<open>new Date(date).getTime()\<close> of its string. The chat transcript \<^verbatim>\<open>agentChat\<close> (ids from
  the clock and the random generator, texts from the language model) is written but never
  read by the service and is left out, and so is the \<^verbatim>\<open>policy\<close> argument, which only
  those chat texts mention.
\<close>

record SkuCost =
  holdingCost :: real
  shortageCost :: real

record BudgetRow =
  budgetDate :: int
  budget :: real

record WarehouseRow =
  constraintDate :: int
  capacity :: real
  warehouse :: int

record CSVPrediction =
  item_id :: string
  name :: string
  yhat :: number
  lo :: number
  hi :: number
  confidence_score :: "number option"
  date :: int

record BusinessData =
  item_ids :: "string list"
  product_names :: "string list"

text \<open>
  The explanation of a demand result: the text of the language model when it answers, the
  local sentence (forecast, confidence, interval) otherwise.
\<close>

datatype demandText = ModelText string | ForecastSentence number number number number

record DemandResult =
  demandItemId :: string
  demandItemName :: string
  targetQuantity :: number
  confidence :: number
  demandReasoning :: demandText

record PlanItem =
  itemId :: string
  itemName :: string
  quantity :: number
  unitCost :: number
  totalCost :: number

datatype planText =
    NewsvendorBudgetText real
  | WarehouseCapacityText real
  | ModifiedText number number number number

record SimplePlan =
  items :: "PlanItem list"
  planTotalCost :: number
  planTotalUnits :: number
  reasoning :: planText

datatype status = Ready | Running | WaitingForInput | Complete

record HumanInput =
  feedback :: string

record WorkflowState =
  status :: status
  demandResults :: "DemandResult list"
  purchasePlan :: "SimplePlan option"
  messages :: "string list"
  awaitingHumanInput :: bool
  humanInput :: "HumanInput option"
  showResults :: bool

text \<open>
  The cost table is an object read as \<^verbatim>\<open>skuCostData[productId]\<close>. For a product id that
  names a property inherited from \<^verbatim>\<open>Object.prototype\<close> the value read has no cost
  fields, every number computed from it is \<^verbatim>\<open>NaN\<close>, the item fails the budget test and does
  not count at the gate: the plan and the gate are those of a missing entry, which is how the
  map models it.
\<close>

text \<open>
  The language model is an optional collaborator: absent, or a function from the facts of
  the demand prompt to its answer, \<open>None\<close> when the call fails.
\<close>

record Service =
  model :: "(string \<Rightarrow> number \<Rightarrow> number \<Rightarrow> number \<Rightarrow> number \<Rightarrow> string option) option"
  budgetData :: "BudgetRow list"
  skuCostData :: "string \<rightharpoonup> SkuCost"
  warehouseConstraints :: "WarehouseRow list"

section \<open>Budget and capacity history\<close>

definition getCurrentBudget :: "Service \<Rightarrow> real" where
  "getCurrentBudget svc =
     (if length (budgetData svc) = 0 then 10000
      else budget (budgetData svc ! (length (budgetData svc) - 1)))"

text \<open>
  \<^verbatim>\<open>rows.sort((a, b) => new Date(b.date).getTime() - new Date(a.date).getTime())\<close>: the
  stable sort by descending date.
\<close>

definition newestFirst :: "('a \<Rightarrow> int) \<Rightarrow> 'a list \<Rightarrow> 'a list" where
  "newestFirst dateOf rows = sort_key (\<lambda>r. - dateOf r) rows"

definition getCurrentWarehouseCapacity :: "Service \<Rightarrow> int \<Rightarrow> real" where
  "getCurrentWarehouseCapacity svc warehouseId =
     (if length (warehouseConstraints svc) = 0 then 1000
      else (case newestFirst constraintDate
                   (filter (\<lambda>c. warehouse c = warehouseId) (warehouseConstraints svc)) of
              [] \<Rightarrow> 1000
            | latest # rest \<Rightarrow> capacity latest))"

section \<open>DemandAnalyzer\<close>

definition calculateConfidence :: "CSVPrediction \<Rightarrow> number" where
  "calculateConfidence pred =
     (case confidence_score pred of
        Some score \<Rightarrow> mathMax (Fin 0.1) (mathMin (Fin 0.95) score)
      | None \<Rightarrow>
          (let range = sub (hi pred) (lo pred); forecast = yhat pred
           in mathMax (Fin 0.1)
                (mathMin (Fin 0.95) (sub (Fin 1) (quot range (mathMax forecast (Fin 1)))))))"

text \<open>
  The name table of \<^verbatim>\<open>analyzeDemandRefined\<close>: for every business and every position of
  its \<^verbatim>\<open>item_ids\<close>, \<^verbatim>\<open>product_names[index] || `Product ${itemId}`\<close>; a later
  \<^verbatim>\<open>set\<close> of the same id replaces the earlier one.
\<close>

fun nameEntries :: "string list \<Rightarrow> string list \<Rightarrow> (string \<times> string) list" where
  "nameEntries [] names = []"
| "nameEntries (i # ids) [] = (i, ''Product '' @ i) # nameEntries ids []"
| "nameEntries (i # ids) (n # names) =
     (i, if n = [] then ''Product '' @ i else n) # nameEntries ids names"

definition itemIdToProductName :: "BusinessData list \<Rightarrow> string \<rightharpoonup> string" where
  "itemIdToProductName businessData =
     map_of (rev (concat (map (\<lambda>b. nameEntries (item_ids b) (product_names b)) businessData)))"

definition actualProductName :: "BusinessData list \<Rightarrow> CSVPrediction \<Rightarrow> string" where
  "actualProductName businessData pred =
     (case itemIdToProductName businessData (item_id pred) of
        None \<Rightarrow> name pred
      | Some n \<Rightarrow> if n = [] then name pred else n)"

definition demandReasoningOf ::
  "Service \<Rightarrow> string \<Rightarrow> CSVPrediction \<Rightarrow> number \<Rightarrow> demandText" where
  "demandReasoningOf svc productName pred conf =
     (case model svc of
        None \<Rightarrow> ForecastSentence (yhat pred) conf (lo pred) (hi pred)
      | Some generateContent \<Rightarrow>
          (case generateContent productName (yhat pred) conf (lo pred) (hi pred) of
             Some answer \<Rightarrow> ModelText answer
           | None \<Rightarrow> ForecastSentence (yhat pred) conf (lo pred) (hi pred)))"

definition analyzeDemandRefined ::
  "Service \<Rightarrow> BusinessData list \<Rightarrow> CSVPrediction list \<Rightarrow> DemandResult list" where
  "analyzeDemandRefined svc businessData predictions =
     map (\<lambda>pred.
            (let conf = calculateConfidence pred;
                 productName = actualProductName businessData pred
             in \<lparr> demandItemId = item_id pred,
                  demandItemName = productName,
                  targetQuantity = yhat pred,
                  confidence = conf,
                  demandReasoning = demandReasoningOf svc productName pred conf \<rparr>))
         predictions"

section \<open>Plan generation: the newsvendor quantity under the budget ledger\<close>

text \<open>
  One pass of the \<^verbatim>\<open>for\<close> loop of \<^verbatim>\<open>generatePurchasePlanRefined\<close>. The accumulator is
  \<^verbatim>\<open>(items, totalCost, totalUnits)\<close>, written \<open>(planItems, runningCost, runningUnits)\<close>;
  \<open>demands\<close> is the whole list \<^verbatim>\<open>demandResults\<close>, searched by
  \<^verbatim>\<open>find\<close> for the first result with the item's id.
\<close>

definition planStep ::
  "Service \<Rightarrow> real \<Rightarrow> DemandResult list \<Rightarrow> PlanItem list \<times> number \<times> number \<Rightarrow> DemandResult
     \<Rightarrow> PlanItem list \<times> number \<times> number" where
  "planStep svc weeklyBudget demands acc demand =
     (case acc of (planItems, runningCost, runningUnits) \<Rightarrow>
       (case skuCostData svc (productIdOf (demandItemId demand)) of
          None \<Rightarrow> acc
        | Some skuCost \<Rightarrow>
           (case find (\<lambda>d. demandItemId d = demandItemId demand) demands of
              None \<Rightarrow> acc
            | Some originalPred \<Rightarrow>
               (let newsvendorQuantity =
                      calculateNewsvendorQuantity (targetQuantity demand)
                        (mul (targetQuantity originalPred) (Fin 0.8))
                        (mul (targetQuantity originalPred) (Fin 1.2))
                        (holdingCost skuCost) (shortageCost skuCost);
                    purchasingPrice = shortageCost skuCost + 10;
                    itemCost = mul newsvendorQuantity (Fin purchasingPrice)
                in if le (add runningCost itemCost) (Fin weeklyBudget)
                   then (planItems @
                           [\<lparr> itemId = demandItemId demand,
                              itemName = demandItemName demand,
                              quantity = newsvendorQuantity,
                              unitCost = Fin purchasingPrice,
                              totalCost = itemCost \<rparr>],
                         add runningCost itemCost,
                         add runningUnits newsvendorQuantity)
                   else acc))))"

definition generatePurchasePlanRefined :: "Service \<Rightarrow> DemandResult list \<Rightarrow> SimplePlan" where
  "generatePurchasePlanRefined svc demands =
     (let weeklyBudget = getCurrentBudget svc
      in case foldl (planStep svc weeklyBudget demands) ([], Fin 0, Fin 0) demands of
           (planItems, runningCost, runningUnits) \<Rightarrow>
             \<lparr> items = planItems,
               planTotalCost = runningCost,
               planTotalUnits = runningUnits,
               reasoning = NewsvendorBudgetText weeklyBudget \<rparr>)"

section \<open>Capacity filter: \<^verbatim>\<open>applyWarehouseConstraints\<close>\<close>

definition constrainStep ::
  "real \<Rightarrow> PlanItem list \<times> number \<times> number \<Rightarrow> PlanItem \<Rightarrow> PlanItem list \<times> number \<times> number" where
  "constrainStep warehouseCapacity acc item =
     (case acc of (constrainedItems, runningCost, runningUnits) \<Rightarrow>
       (let constrainedQuantity = mathMin (quantity item) (Fin warehouseCapacity)
        in if gt constrainedQuantity (Fin 0)
           then (let constrainedItem =
                       item\<lparr> quantity := constrainedQuantity,
                             totalCost := mul constrainedQuantity (unitCost item) \<rparr>
                 in (constrainedItems @ [constrainedItem],
                     add runningCost (totalCost constrainedItem),
                     add runningUnits constrainedQuantity))
           else acc))"

text \<open>The filter for a given capacity; the service looks the capacity of warehouse 11 up.\<close>

definition applyCapacity :: "real \<Rightarrow> SimplePlan \<Rightarrow> SimplePlan" where
  "applyCapacity warehouseCapacity plan =
     (case foldl (constrainStep warehouseCapacity) ([], Fin 0, Fin 0) (items plan) of
        (constrainedItems, runningCost, runningUnits) \<Rightarrow>
          \<lparr> items = constrainedItems,
            planTotalCost = runningCost,
            planTotalUnits = runningUnits,
            reasoning = WarehouseCapacityText warehouseCapacity \<rparr>)"

definition applyWarehouseConstraints :: "Service \<Rightarrow> SimplePlan \<Rightarrow> SimplePlan" where
  "applyWarehouseConstraints svc plan = applyCapacity (getCurrentWarehouseCapacity svc 11) plan"

section \<open>The human-review gate\<close>

definition itemNeedsReview :: "Service \<Rightarrow> PlanItem \<Rightarrow> bool" where
  "itemNeedsReview svc item =
     (case skuCostData svc (productIdOf (itemId item)) of
        None \<Rightarrow> False
      | Some skuCost \<Rightarrow>
          (let totalHoldingCost = mul (quantity item) (Fin (holdingCost skuCost));
               totalShortageCost = mul (quantity item) (Fin (shortageCost skuCost))
           in gt totalHoldingCost totalShortageCost))"

definition checkHumanInputRequired :: "Service \<Rightarrow> SimplePlan \<Rightarrow> bool" where
  "checkHumanInputRequired svc plan = list_ex (itemNeedsReview svc) (items plan)"

section \<open>FeedbackReconciler: \<^verbatim>\<open>modifyPlanBasedOnHumanInput\<close>\<close>

definition reducedQuantity :: "real \<Rightarrow> number \<Rightarrow> number" where
  "reducedQuantity factor q = mathMax (Fin 1) (mathFloor (mul q (Fin factor)))"

text \<open>
  The body of the \<^verbatim>\<open>forEach\<close> of every rule: the item is written only when the new
  quantity differs, and that sets \<^verbatim>\<open>modified\<close>.
\<close>

definition reduceItem :: "real \<Rightarrow> PlanItem \<Rightarrow> PlanItem" where
  "reduceItem factor item =
     (let newQuantity = reducedQuantity factor (quantity item)
      in if strictNe newQuantity (quantity item)
         then item\<lparr> quantity := newQuantity, totalCost := mul newQuantity (unitCost item) \<rparr>
         else item)"

definition itemChanges :: "real \<Rightarrow> PlanItem \<Rightarrow> bool" where
  "itemChanges factor item = strictNe (reducedQuantity factor (quantity item)) (quantity item)"

definition sumQuantity :: "PlanItem list \<Rightarrow> number" where
  "sumQuantity planItems = foldl (\<lambda>sum item. add sum (quantity item)) (Fin 0) planItems"

definition sumTotalCost :: "PlanItem list \<Rightarrow> number" where
  "sumTotalCost planItems = foldl (\<lambda>sum item. add sum (totalCost item)) (Fin 0) planItems"

text \<open>\<^verbatim>\<open>if (modified) { ... recalculate totals ... }\<close>\<close>

definition recalculate :: "bool \<Rightarrow> SimplePlan \<Rightarrow> SimplePlan" where
  "recalculate modified plan =
     (if modified
      then plan\<lparr> planTotalUnits := sumQuantity (items plan),
                 planTotalCost := sumTotalCost (items plan) \<rparr>
      else plan)"

text \<open>A rule that reduces the items selected by \<open>sel\<close>; the state is the plan and \<^verbatim>\<open>modified\<close>.\<close>

definition reduceWhere ::
  "(PlanItem \<Rightarrow> bool) \<Rightarrow> real \<Rightarrow> SimplePlan \<times> bool \<Rightarrow> SimplePlan \<times> bool" where
  "reduceWhere sel factor st =
     (case st of (plan, modified) \<Rightarrow>
       (let modified' = (modified \<or> list_ex (\<lambda>item. sel item \<and> itemChanges factor item) (items plan));
            plan' = plan\<lparr> items := map (\<lambda>item. if sel item then reduceItem factor item else item)
                                      (items plan) \<rparr>
        in (recalculate modified' plan', modified')))"

definition budgetConcern :: "string \<Rightarrow> bool" where
  "budgetConcern fb =
     (includesStr fb ''budget'' \<or> includesStr fb ''cost'' \<or> includesStr fb ''expensive'')"

definition riskConcern :: "string \<Rightarrow> bool" where
  "riskConcern fb =
     (includesStr fb ''risk'' \<or> includesStr fb ''conservative'' \<or> includesStr fb ''safe'')"

definition mentioned :: "string \<Rightarrow> PlanItem \<Rightarrow> bool" where
  "mentioned fb item =
     (includesStr fb (toLowerCase (itemName item)) \<or> includesStr fb (toLowerCase (itemId item)))"

definition modifyPlan :: "string \<Rightarrow> SimplePlan \<Rightarrow> SimplePlan" where
  "modifyPlan humanFeedback originalPlan =
     (let fb = toLowerCase humanFeedback;
          st0 = (originalPlan, False);
          st1 = (if budgetConcern fb
                 then reduceWhere (\<lambda>item. True) (if includesStr fb ''very'' then 0.7 else 0.85) st0
                 else st0);
          st2 = (if riskConcern fb
                 then reduceWhere (\<lambda>item. True) (if includesStr fb ''very'' then 0.75 else 0.9) st1
                 else st1);
          st3 = (if length (filter (mentioned fb) (items (fst st2))) > 0
                 then reduceWhere (mentioned fb) 0.7 st2
                 else st2);
          st4 = (if \<not> snd st3 then reduceWhere (\<lambda>item. True) 0.95 st3 else st3)
      in if snd st4
         then (fst st4)\<lparr> reasoning :=
                 ModifiedText (planTotalCost originalPlan) (planTotalUnits originalPlan)
                   (planTotalCost (fst st4)) (planTotalUnits (fst st4)) \<rparr>
         else fst st4)"

text \<open>\<^verbatim>\<open>modifyPlanBasedOnHumanInput\<close> returns at once when the state has no plan.\<close>

definition modifyPlanBasedOnHumanInput :: "HumanInput \<Rightarrow> WorkflowState \<Rightarrow> WorkflowState" where
  "modifyPlanBasedOnHumanInput input state =
     (case purchasePlan state of
        None \<Rightarrow> state
      | Some plan \<Rightarrow> state\<lparr> purchasePlan := Some (modifyPlan (feedback input) plan) \<rparr>)"

definition processHumanInput :: "WorkflowState \<Rightarrow> HumanInput \<Rightarrow> WorkflowState" where
  "processHumanInput state input =
     (let state1 = state\<lparr> humanInput := Some input, awaitingHumanInput := False,
                          status := Running \<rparr>;
          state2 = modifyPlanBasedOnHumanInput input state1
      in state2\<lparr> showResults := True, status := Complete \<rparr>)"

section \<open>WorkflowStateMachine: \<^verbatim>\<open>runWorkflow\<close>\<close>

text \<open>
  The forecasts are grouped by \<^verbatim>\<open>item_id\<close> in an object, and \<^verbatim>\<open>Object.values\<close> lists
  the groups: first the keys that are array indices (canonical decimal strings below
  \<open>2\<^sup>3\<^sup>2 - 1\<close>) in ascending numeric order, then the other keys in the order
  of their insertion.
\<close>

text \<open>
  The grouping reads \<^verbatim>\<open>acc[item.item_id]\<close> on an object created as \<^verbatim>\<open>{}\<close>. For an id
  that names a property inherited from \<^verbatim>\<open>Object.prototype\<close> the value read is truthy and
  is not an array, and the call of its \<^verbatim>\<open>push\<close> throws a \<^verbatim>\<open>TypeError\<close> (the message is
  the one of V8). The functions below describe the grouping when it does not throw.
\<close>

definition objectPrototypeKeys :: "string list" where
  "objectPrototypeKeys =
     [''constructor'', ''__defineGetter__'', ''__defineSetter__'', ''hasOwnProperty'',
      ''__lookupGetter__'', ''__lookupSetter__'', ''isPrototypeOf'', ''propertyIsEnumerable'',
      ''toString'', ''valueOf'', ''__proto__'', ''toLocaleString'']"

definition firstOccurrences :: "string list \<Rightarrow> string list" where
  "firstOccurrences keys = rev (remdups (rev keys))"

definition isDigit :: "char \<Rightarrow> bool" where
  "isDigit ch = (let n = (of_char ch :: nat) in 48 \<le> n \<and> n \<le> 57)"

definition decimalValue :: "string \<Rightarrow> nat" where
  "decimalValue s = foldl (\<lambda>n ch. 10 * n + (of_char ch - 48)) 0 s"

definition isArrayIndex :: "string \<Rightarrow> bool" where
  "isArrayIndex s =
     (s \<noteq> [] \<and> list_all isDigit s \<and> (s = ''0'' \<or> take 1 s \<noteq> ''0'')
      \<and> decimalValue s < 2 ^ 32 - 1)"

definition objectKeys :: "string list \<Rightarrow> string list" where
  "objectKeys insertionOrder =
     sort_key decimalValue (filter isArrayIndex insertionOrder)
     @ filter (\<lambda>k. \<not> isArrayIndex k) insertionOrder"

text \<open>\<^verbatim>\<open>sortedItems[0]\<close> of a group: its newest record, the first of them in file order.\<close>

definition newestOfGroup :: "CSVPrediction list \<Rightarrow> CSVPrediction list" where
  "newestOfGroup itemGroup = take 1 (newestFirst date itemGroup)"

definition newestPredictions :: "CSVPrediction list \<Rightarrow> string list \<Rightarrow> CSVPrediction list" where
  "newestPredictions allPredictions itemIds =
     filter (\<lambda>p. item_id p \<in> set itemIds)
       (concat (map (\<lambda>k. newestOfGroup (filter (\<lambda>p. item_id p = k) allPredictions))
                    (objectKeys (firstOccurrences (map item_id allPredictions)))))"

text \<open>
  A thrown value: an \<^verbatim>\<open>Error\<close> with its message, or anything else. The awaited calls of
  the \<^verbatim>\<open>try\<close> block are the stages; which of them rejects, and with what, is given by
  the environment of the run, together with the outcome of loading and parsing the forecast
  file and the business table (empty when its load fails). The grouping of the forecasts
  throws by itself, as said above. The progress callback \<^verbatim>\<open>onUpdate\<close> only observes
  snapshots and is not modelled.
\<close>

datatype thrown = ErrorObject string | OtherValue

definition groupingError :: "CSVPrediction list \<Rightarrow> thrown option" where
  "groupingError allPredictions =
     (if list_ex (\<lambda>p. item_id p \<in> set objectPrototypeKeys) allPredictions
      then Some (ErrorObject ''acc[item.item_id].push is not a function'')
      else None)"

datatype stage =
    StartAgentConversation
  | AnalyzeDemand
  | GeneratePurchasePlan
  | ApplyWarehouseConstraints
  | FinalAgentConsensus

record Environment =
  scoredCsv :: "thrown + CSVPrediction list"
  businessData :: "BusinessData list"
  rejects :: "stage \<Rightarrow> thrown option"

definition initialState :: WorkflowState where
  "initialState =
     \<lparr> status = Running, demandResults = [], purchasePlan = None, messages = [],
       awaitingHumanInput = False, humanInput = None, showResults = False \<rparr>"

text \<open>
  The \<^verbatim>\<open>try\<close> block: \<open>Inr\<close> the state it returns, or \<open>Inl\<close> the thrown value
  together with the state as the block had left it when the call rejected. Steps 4 and 5,
  the gate, come first.
\<close>

definition gateAndFinish ::
  "Service \<Rightarrow> Environment \<Rightarrow> WorkflowState \<Rightarrow> SimplePlan \<Rightarrow> thrown \<times> WorkflowState + WorkflowState" where
  "gateAndFinish svc env state plan =
     (let humanInputRequired = checkHumanInputRequired svc plan
      in if humanInputRequired
         then Inr (state\<lparr> status := WaitingForInput, awaitingHumanInput := True,
                          showResults := False \<rparr>)
         else (case rejects env FinalAgentConsensus of
                 Some e \<Rightarrow> Inl (e, state)
               | None \<Rightarrow> Inr (state\<lparr> showResults := True, status := Complete \<rparr>)))"

definition tryBlock ::
  "Service \<Rightarrow> Environment \<Rightarrow> string list \<Rightarrow> WorkflowState \<Rightarrow> thrown \<times> WorkflowState + WorkflowState" where
  "tryBlock svc env itemIds state =
     (case rejects env StartAgentConversation of
        Some e \<Rightarrow> Inl (e, state)
      | None \<Rightarrow>
      (case scoredCsv env of
        Inl e \<Rightarrow> Inl (e, state)
      | Inr allPredictions \<Rightarrow>
      (case groupingError allPredictions of
        Some e \<Rightarrow> Inl (e, state)
      | None \<Rightarrow>
      (let newest = newestPredictions allPredictions itemIds in
       case rejects env AnalyzeDemand of
         Some e \<Rightarrow> Inl (e, state)
       | None \<Rightarrow>
       (let state1 = state\<lparr> demandResults := analyzeDemandRefined svc (businessData env) newest \<rparr> in
        case rejects env GeneratePurchasePlan of
          Some e \<Rightarrow> Inl (e, state1)
        | None \<Rightarrow>
        (let plan1 = generatePurchasePlanRefined svc (demandResults state1);
             state2 = state1\<lparr> purchasePlan := Some plan1 \<rparr> in
         case rejects env ApplyWarehouseConstraints of
           Some e \<Rightarrow> Inl (e, state2)
         | None \<Rightarrow>
         (let plan2 = applyWarehouseConstraints svc plan1;
              state3 = state2\<lparr> purchasePlan := Some plan2 \<rparr>
          in gateAndFinish svc env state3 plan2)))))))"

text \<open>The \<^verbatim>\<open>catch\<close> block.\<close>

definition errorMessage :: "thrown \<Rightarrow> string" where
  "errorMessage e = ''Error: '' @ (case e of ErrorObject msg \<Rightarrow> msg | OtherValue \<Rightarrow> ''Unknown error'')"

definition catchError :: "thrown \<Rightarrow> WorkflowState \<Rightarrow> WorkflowState" where
  "catchError e state = state\<lparr> messages := messages state @ [errorMessage e], status := Complete \<rparr>"

definition runWorkflow :: "Service \<Rightarrow> Environment \<Rightarrow> string list \<Rightarrow> WorkflowState" where
  "runWorkflow svc env itemIds =
     (case tryBlock svc env itemIds initialState of
        Inl (e, state) \<Rightarrow> catchError e state
      | Inr state \<Rightarrow> state)"

section \<open>Notions of the specification\<close>

text \<open>
  The plan invariant of the data model: every item's total is its quantity times its unit
  cost, and the aggregates of the plan are the sums over its items, taken as
  \<^verbatim>\<open>reduce((sum, item) => sum + ..., 0)\<close> takes them.
\<close>

definition itemConsistent :: "PlanItem \<Rightarrow> bool" where
  "itemConsistent item = (totalCost item = mul (quantity item) (unitCost item))"

definition planConsistent :: "SimplePlan \<Rightarrow> bool" where
  "planConsistent plan =
     (list_all itemConsistent (items plan)
      \<and> planTotalCost plan = sumTotalCost (items plan)
      \<and> planTotalUnits plan = sumQuantity (items plan))"

text \<open>
  The item that \<^verbatim>\<open>generatePurchasePlanRefined\<close> proposes for a demand result, before the
  budget is looked at: none when the product has no cost entry (or \<^verbatim>\<open>find\<close> finds no
  result with the id).
\<close>

definition proposal :: "Service \<Rightarrow> DemandResult list \<Rightarrow> DemandResult \<Rightarrow> PlanItem list" where
  "proposal svc demands demand =
     (case skuCostData svc (productIdOf (demandItemId demand)) of
        None \<Rightarrow> []
      | Some skuCost \<Rightarrow>
         (case find (\<lambda>d. demandItemId d = demandItemId demand) demands of
            None \<Rightarrow> []
          | Some originalPred \<Rightarrow>
              [\<lparr> itemId = demandItemId demand,
                 itemName = demandItemName demand,
                 quantity = calculateNewsvendorQuantity (targetQuantity demand)
                              (mul (targetQuantity originalPred) (Fin 0.8))
                              (mul (targetQuantity originalPred) (Fin 1.2))
                              (holdingCost skuCost) (shortageCost skuCost),
                 unitCost = Fin (shortageCost skuCost + 10),
                 totalCost = mul (calculateNewsvendorQuantity (targetQuantity demand)
                                    (mul (targetQuantity originalPred) (Fin 0.8))
                                    (mul (targetQuantity originalPred) (Fin 1.2))
                                    (holdingCost skuCost) (shortageCost skuCost))
                                 (Fin (shortageCost skuCost + 10)) \<rparr>]))"

text \<open>The same item with the band taken from the demand result's own forecast.\<close>

definition ownProposal :: "Service \<Rightarrow> DemandResult \<Rightarrow> PlanItem list" where
  "ownProposal svc demand =
     (case skuCostData svc (productIdOf (demandItemId demand)) of
        None \<Rightarrow> []
      | Some skuCost \<Rightarrow>
          [\<lparr> itemId = demandItemId demand,
             itemName = demandItemName demand,
             quantity = calculateNewsvendorQuantity (targetQuantity demand)
                          (mul (targetQuantity demand) (Fin 0.8))
                          (mul (targetQuantity demand) (Fin 1.2))
                          (holdingCost skuCost) (shortageCost skuCost),
             unitCost = Fin (shortageCost skuCost + 10),
             totalCost = mul (calculateNewsvendorQuantity (targetQuantity demand)
                                (mul (targetQuantity demand) (Fin 0.8))
                          (mul (targetQuantity demand) (Fin 1.2))
                                (holdingCost skuCost) (shortageCost skuCost))
                             (Fin (shortageCost skuCost + 10)) \<rparr>])"

text \<open>
  The budget filter in the words of the specification, \<^verbatim>\<open>applyBudget(items,
  availableBudget)\<close>: the items in the given order, a running total, an item admitted only
  if the running total plus its cost is at most the budget, and dropped entirely otherwise.
\<close>

fun applyBudget :: "number \<Rightarrow> number \<Rightarrow> PlanItem list \<Rightarrow> PlanItem list" where
  "applyBudget availableBudget runningTotal [] = []"
| "applyBudget availableBudget runningTotal (item # rest) =
     (if le (add runningTotal (totalCost item)) availableBudget
      then item # applyBudget availableBudget (add runningTotal (totalCost item)) rest
      else applyBudget availableBudget runningTotal rest)"

text \<open>The capacity clamp of one item.\<close>

definition clampItem :: "real \<Rightarrow> PlanItem \<Rightarrow> PlanItem" where
  "clampItem cap item =
     item\<lparr> quantity := mathMin (quantity item) (Fin cap),
           totalCost := mul (mathMin (quantity item) (Fin cap)) (unitCost item) \<rparr>"

text \<open>The items of the plan a state holds; none when it holds no plan.\<close>

definition currentItems :: "WorkflowState \<Rightarrow> PlanItem list" where
  "currentItems state = (case purchasePlan state of None \<Rightarrow> [] | Some plan \<Rightarrow> items plan)"

section \<open>Example data\<close>

text \<open>
  A service with a budget of 650, a capacity of 100 for warehouse 11, no language model,
  and cost entries for six products; forecasts for four items; an environment in which
  every stage succeeds, and one in which the forecast file does not load.
\<close>

definition exampleCosts :: "string \<rightharpoonup> SkuCost" where
  "exampleCosts =
     [''a'' \<mapsto> \<lparr> holdingCost = 50, shortageCost = 90 \<rparr>,
      ''b'' \<mapsto> \<lparr> holdingCost = 50, shortageCost = 90 \<rparr>,
      ''c'' \<mapsto> \<lparr> holdingCost = 50, shortageCost = 90 \<rparr>,
      ''10530'' \<mapsto> \<lparr> holdingCost = 5, shortageCost = 3 \<rparr>,
      ''10531'' \<mapsto> \<lparr> holdingCost = 2, shortageCost = 10 \<rparr>,
      ''10532'' \<mapsto> \<lparr> holdingCost = 12, shortageCost = 3 \<rparr>]"

definition exampleService :: Service where
  "exampleService =
     \<lparr> model = None,
       budgetData = [\<lparr> budgetDate = 1, budget = 650 \<rparr>],
       skuCostData = exampleCosts,
       warehouseConstraints = [\<lparr> constraintDate = 1, capacity = 100, warehouse = 11 \<rparr>] \<rparr>"

definition forecast :: "string \<Rightarrow> real \<Rightarrow> CSVPrediction" where
  "forecast i y =
     \<lparr> item_id = i, name = ''Product'', yhat = Fin y, lo = Fin (y - 1), hi = Fin (y + 1),
       confidence_score = Some (Fin 0.9), date = 1 \<rparr>"

definition exampleForecasts :: "CSVPrediction list" where
  "exampleForecasts =
     [forecast ''1/11/a'' 3, forecast ''1/11/b'' 3, forecast ''1/11/c'' 5,
      forecast ''32/11/10532'' 10]"

definition exampleEnvironment :: Environment where
  "exampleEnvironment =
     \<lparr> scoredCsv = Inr exampleForecasts, businessData = [], rejects = (\<lambda>s. None) \<rparr>"

definition failingEnvironment :: Environment where
  "failingEnvironment =
     \<lparr> scoredCsv = Inl (ErrorObject ''Failed to load CSV file: Not Found''),
       businessData = [], rejects = (\<lambda>s. None) \<rparr>"

definition planItem :: "string \<Rightarrow> string \<Rightarrow> real \<Rightarrow> real \<Rightarrow> PlanItem" where
  "planItem i n q u =
     \<lparr> itemId = i, itemName = n, quantity = Fin q, unitCost = Fin u, totalCost = Fin (q * u) \<rparr>"

definition planOf :: "PlanItem list \<Rightarrow> SimplePlan" where
  "planOf planItems =
     \<lparr> items = planItems, planTotalCost = sumTotalCost planItems,
       planTotalUnits = sumQuantity planItems, reasoning = WarehouseCapacityText 1000 \<rparr>"

text \<open>
  An environment in which the capacity stage throws after the plan has been generated, and
  one whose forecast file has a row for the item id \<^verbatim>\<open>constructor\<close>.
\<close>

definition capacityFailureEnvironment :: Environment where
  "capacityFailureEnvironment =
     \<lparr> scoredCsv = Inr exampleForecasts, businessData = [],
       rejects = (\<lambda>s. if s = ApplyWarehouseConstraints
                       then Some (ErrorObject ''capacity lookup failed'') else None) \<rparr>"

definition inheritedKeyEnvironment :: Environment where
  "inheritedKeyEnvironment =
     \<lparr> scoredCsv = Inr (exampleForecasts @ [forecast ''constructor'' 4]), businessData = [],
       rejects = (\<lambda>s. None) \<rparr>"

text \<open>Demand results with forecasts 3, 3 and 5 for products that cost 100 a unit.\<close>

definition ledgerDemands :: "DemandResult list" where
  "ledgerDemands = analyzeDemandRefined exampleService []
     [forecast ''1/11/a'' 3, forecast ''1/11/b'' 3, forecast ''1/11/c'' 5]"

text \<open>A budget history whose rows are not in the order of their dates.\<close>

definition unsortedBudgetService :: Service where
  "unsortedBudgetService =
     \<lparr> model = None,
       budgetData = [\<lparr> budgetDate = 2, budget = 500 \<rparr>, \<lparr> budgetDate = 1, budget = 300 \<rparr>],
       skuCostData = exampleCosts,
       warehouseConstraints = [] \<rparr>"

section \<open>The newsvendor example\<close>

lemma inverseNormalCDF_code [code]:
  "inverseNormalCDF (Fin p) =
     (if p \<le> 0 \<or> p \<ge> 1 then (if p \<le> 0 then NInf else PInf)
      else if p < split1 then
        (let r = const1 - p * p in divide (p * polyA r) (polyB r))
      else (let r = p - 0.5; r2 = r * r in divide (polyA r2 * r) (polyB r2)))"
  "inverseNormalCDF PInf = PInf"
  "inverseNormalCDF NInf = NInf"
  "inverseNormalCDF NaN = NaN"
  by (simp_all add: split2_def)

lemmas coefficients =
  a0_def a1_def a2_def a3_def a4_def a5_def b1_def b2_def b3_def b4_def b5_def

lemma quantile_at_example:
  "inverseNormalCDF (Fin (14 / 15)) =
     Fin (54186676069396817935589887599157 / 79410660180658788683510885648400)"
  by (simp add: split1_def split2_def Let_def divide_def polyA_def polyB_def coefficients)

text \<open>
  C1. For \<^verbatim>\<open>calculateNewsvendorQuantity(2, 1.6, 2.4, 1, 5)\<close> the price is 15, the critical
  ratio is \<open>14/15\<close>, the standard deviation is \<open>0.8/3.92\<close> and the returned quantity is 3.
  The value that \<^verbatim>\<open>inverseNormalCDF\<close> computes at \<open>14/15\<close> lies between 0.68 and 0.69:
  it is not the quantile 1.50 of the normal distribution, and the quantity before rounding
  is about 2.14, not 2.31.
\<close>

theorem newsvendor_example:
  "purchasingPriceOf 5 = 15
   \<and> criticalRatioOf 1 5 = Fin (14 / 15)
   \<and> stdDevOf (Fin 1.6) (Fin 2.4) = Fin (0.8 / 3.92)
   \<and> (\<exists>z q. inverseNormalCDF (criticalRatioOf 1 5) = Fin z \<and> 0.68 < z \<and> z < 0.69
          \<and> add (Fin 2) (mul (stdDevOf (Fin 1.6) (Fin 2.4)) (Fin z)) = Fin q
          \<and> 2.13 < q \<and> q < 2.14)
   \<and> calculateNewsvendorQuantity (Fin 2) (Fin 1.6) (Fin 2.4) 1 5 = Fin 3"
proof -
  have cr: "criticalRatioOf 1 5 = Fin (14 / 15)"
    by (simp add: criticalRatioOf_def purchasingPriceOf_def divide_def Let_def)
  have sd: "stdDevOf (Fin 1.6) (Fin 2.4) = Fin (0.8 / 3.92)"
    by (simp add: stdDevOf_def sub_def divide_def)
  have c: "\<lceil>(2::real) + 0.8 / 3.92 *
             (54186676069396817935589887599157 / 79410660180658788683510885648400)\<rceil> = 3"
    by (simp add: ceiling_eq_iff)
  have q: "calculateNewsvendorQuantity (Fin 2) (Fin 1.6) (Fin 2.4) 1 5 = Fin 3"
    unfolding calculateNewsvendorQuantity_def Let_def cr sd quantile_at_example
    using c by (simp add: mathMax_def)
  have z: "\<exists>z q. inverseNormalCDF (criticalRatioOf 1 5) = Fin z \<and> 0.68 < z \<and> z < 0.69
          \<and> add (Fin 2) (mul (stdDevOf (Fin 1.6) (Fin 2.4)) (Fin z)) = Fin q
          \<and> 2.13 < q \<and> q < 2.14"
    unfolding cr sd quantile_at_example
    by (rule exI [of _ "54186676069396817935589887599157 / 79410660180658788683510885648400"],
        rule exI [of _ "2 + 0.8 / 3.92 *
          (54186676069396817935589887599157 / 79410660180658788683510885648400)"])
       simp
  show ?thesis
    using cr sd q z by (simp add: purchasingPriceOf_def)
qed

section \<open>The budget ledger and the capacity filter as list functions\<close>

lemma sumTotalCost_snoc: "sumTotalCost (xs @ [x]) = add (sumTotalCost xs) (totalCost x)"
  by (simp add: sumTotalCost_def)

lemma sumQuantity_snoc: "sumQuantity (xs @ [x]) = add (sumQuantity xs) (quantity x)"
  by (simp add: sumQuantity_def)

lemma planStep_proposal:
  "planStep svc b demands (xs, c, u) d =
     (case proposal svc demands d of
        [] \<Rightarrow> (xs, c, u)
      | item # _ \<Rightarrow> if le (add c (totalCost item)) (Fin b)
                    then (xs @ [item], add c (totalCost item), add u (quantity item))
                    else (xs, c, u))"
  by (simp add: planStep_def proposal_def Let_def split: option.splits)

lemma proposal_consistent: "list_all itemConsistent (proposal svc demands d)"
  by (simp add: proposal_def itemConsistent_def split: option.splits)

lemma proposal_length: "length (proposal svc demands d) \<le> 1"
  by (simp add: proposal_def split: option.splits)

lemma planLoop:
  "foldl (planStep svc b demands) (xs, c, u) ds =
     (xs @ applyBudget (Fin b) c (concat (map (proposal svc demands) ds)),
      foldl (\<lambda>s i. add s (totalCost i)) c (applyBudget (Fin b) c (concat (map (proposal svc demands) ds))),
      foldl (\<lambda>s i. add s (quantity i)) u (applyBudget (Fin b) c (concat (map (proposal svc demands) ds))))"
proof (induction ds arbitrary: xs c u)
  case Nil
  then show ?case by simp
next
  case (Cons d ds)
  show ?case
  proof (cases "proposal svc demands d")
    case Nil
    then show ?thesis by (simp add: planStep_proposal Cons.IH)
  next
    case (Cons item rest)
    with proposal_length [of svc demands d] have rest: "rest = []" by simp
    show ?thesis
      by (simp add: planStep_proposal Cons rest Cons.IH)
  qed
qed

lemma constrainStep_eq:
  "constrainStep cap (xs, c, u) y =
     (if gt (mathMin (quantity y) (Fin cap)) (Fin 0)
      then (xs @ [clampItem cap y], add c (totalCost (clampItem cap y)),
            add u (quantity (clampItem cap y)))
      else (xs, c, u))"
  by (simp add: constrainStep_def Let_def clampItem_def)

lemma constrainLoop:
  "foldl (constrainStep cap) (xs, c, u) ys =
     (xs @ map (clampItem cap) (filter (\<lambda>i. gt (mathMin (quantity i) (Fin cap)) (Fin 0)) ys),
      foldl (\<lambda>s i. add s (totalCost i)) c (map (clampItem cap) (filter (\<lambda>i. gt (mathMin (quantity i) (Fin cap)) (Fin 0)) ys)),
      foldl (\<lambda>s i. add s (quantity i)) u (map (clampItem cap) (filter (\<lambda>i. gt (mathMin (quantity i) (Fin cap)) (Fin 0)) ys)))"
proof (induction ys arbitrary: xs c u)
  case Nil
  then show ?case by simp
next
  case (Cons y ys)
  show ?case
    by (simp add: constrainStep_eq Cons.IH)
qed

lemma applyCapacity_items:
  "items (applyCapacity cap plan) =
     map (clampItem cap) (filter (\<lambda>i. gt (mathMin (quantity i) (Fin cap)) (Fin 0)) (items plan))"
  by (simp add: applyCapacity_def constrainLoop)

lemma clamp_number:
  "mathMax (Fin 0.1) (mathMin (Fin 0.95) x) =
     (case x of Fin r \<Rightarrow> Fin (max 0.1 (min 0.95 r)) | PInf \<Rightarrow> Fin 0.95
              | NInf \<Rightarrow> Fin 0.1 | NaN \<Rightarrow> NaN)"
  by (cases x) (auto simp: mathMax_def mathMin_def max_def min_def)

lemma clamp_fin: "mathMax (Fin a) (mathMin (Fin b) (Fin r)) = Fin (max a (min b r))"
  by (auto simp: mathMax_def mathMin_def max_def min_def)

lemma clamp_real: "(0.1::real) \<le> max 0.1 (min 0.95 r) \<and> max 0.1 (min 0.95 r) \<le> 0.95"
  by (auto simp: max_def min_def)

lemma clamp_nan: "mathMax (Fin 0.1) (mathMin (Fin 0.95) x) = NaN \<longleftrightarrow> x = NaN"
  unfolding clamp_number by (cases x) simp_all

lemma clamp_range:
  "x \<noteq> NaN \<Longrightarrow>
     le (Fin 0.1) (mathMax (Fin 0.1) (mathMin (Fin 0.95) x))
     \<and> le (mathMax (Fin 0.1) (mathMin (Fin 0.95) x)) (Fin 0.95)"
  unfolding clamp_number using clamp_real by (cases x) simp_all

text \<open>
  The confidence is \<^verbatim>\<open>NaN\<close> exactly when the clamped number is, and lies between 0.1 and
  0.95 otherwise; on a record with finite fields it is the clamped real.
\<close>

lemma confidence_range_or_nan:
  "calculateConfidence pred = NaN
   \<or> le (Fin 0.1) (calculateConfidence pred) \<and> le (calculateConfidence pred) (Fin 0.95)"
proof (cases "confidence_score pred")
  case None
  then show ?thesis
    unfolding calculateConfidence_def Let_def
    using clamp_range [of "sub (Fin 1) (quot (sub (hi pred) (lo pred)) (mathMax (yhat pred) (Fin 1)))"]
      clamp_nan [of "sub (Fin 1) (quot (sub (hi pred) (lo pred)) (mathMax (yhat pred) (Fin 1)))"]
    by auto
next
  case (Some s)
  then show ?thesis
    unfolding calculateConfidence_def using clamp_range [of s] clamp_nan [of s] by auto
qed

lemma confidence_with_score:
  "calculateConfidence (pred\<lparr> confidence_score := Some score \<rparr>) = NaN \<longleftrightarrow> score = NaN"
  using clamp_nan [of score] by (simp add: calculateConfidence_def)

lemma confidence_finite:
  "calculateConfidence (pred\<lparr> confidence_score := Some (Fin score) \<rparr>) =
     Fin (max 0.1 (min 0.95 score))"
  "calculateConfidence (pred\<lparr> yhat := Fin y, lo := Fin l, hi := Fin h, confidence_score := None \<rparr>) =
     Fin (max 0.1 (min 0.95 (1 - (h - l) / max y 1)))"
proof -
  show "calculateConfidence (pred\<lparr> confidence_score := Some (Fin score) \<rparr>) =
     Fin (max 0.1 (min 0.95 score))"
    by (simp add: calculateConfidence_def clamp_fin)
  have m: "mathMax (Fin y) (Fin 1) = Fin (max y 1)"
    by (simp add: mathMax_def max_def)
  have nz: "max y 1 \<noteq> 0" by (simp add: max_def)
  have q: "sub (Fin 1) (quot (sub (Fin h) (Fin l)) (Fin (max y 1))) = Fin (1 - (h - l) / max y 1)"
    using nz by (simp add: sub_def divide_def)
  show "calculateConfidence (pred\<lparr> yhat := Fin y, lo := Fin l, hi := Fin h, confidence_score := None \<rparr>) =
     Fin (max 0.1 (min 0.95 (1 - (h - l) / max y 1)))"
    by (simp add: calculateConfidence_def Let_def m q clamp_fin)
qed

lemma foldl_add_sumTotalCost: "foldl (\<lambda>s i. add s (totalCost i)) (Fin 0) xs = sumTotalCost xs"
  by (simp add: sumTotalCost_def)

lemma foldl_add_sumQuantity: "foldl (\<lambda>s i. add s (quantity i)) (Fin 0) xs = sumQuantity xs"
  by (simp add: sumQuantity_def)

lemma applyBudget_consistent:
  "list_all itemConsistent xs \<Longrightarrow> list_all itemConsistent (applyBudget b c xs)"
  by (induction xs arbitrary: c) simp_all

lemma generate_items:
  "items (generatePurchasePlanRefined svc demands) =
     applyBudget (Fin (getCurrentBudget svc)) (Fin 0) (concat (map (proposal svc demands) demands))"
  by (simp add: generatePurchasePlanRefined_def Let_def planLoop)

lemma generate_consistent: "planConsistent (generatePurchasePlanRefined svc demands)"
proof -
  have "list_all itemConsistent (concat (map (proposal svc demands) demands))"
    by (simp add: list_all_iff proposal_consistent [unfolded list_all_iff])
  then show ?thesis
    by (simp add: planConsistent_def generatePurchasePlanRefined_def Let_def planLoop
        applyBudget_consistent foldl_add_sumTotalCost foldl_add_sumQuantity)
qed

lemma capacity_consistent: "planConsistent (applyCapacity cap plan)"
  by (simp add: planConsistent_def applyCapacity_def constrainLoop
        foldl_add_sumTotalCost foldl_add_sumQuantity list_all_iff itemConsistent_def clampItem_def)

section \<open>The reconciler keeps the plan invariant\<close>

lemma reduceItem_quantity: "quantity (reduceItem f i) = reducedQuantity f (quantity i)"
  by (auto simp: reduceItem_def Let_def strictNe_def)

lemma reduceItem_names: "itemName (reduceItem f i) = itemName i" "itemId (reduceItem f i) = itemId i"
  "unitCost (reduceItem f i) = unitCost i"
  by (simp_all add: reduceItem_def Let_def)

lemma reduceItem_unchanged: "\<not> itemChanges f i \<Longrightarrow> reduceItem f i = i"
  by (simp add: reduceItem_def itemChanges_def Let_def)

lemma reduceItem_consistent: "itemConsistent i \<Longrightarrow> itemConsistent (reduceItem f i)"
  by (simp add: reduceItem_def itemConsistent_def Let_def)

lemma map_unchanged:
  "\<not> list_ex (\<lambda>i. sel i \<and> itemChanges f i) xs \<Longrightarrow>
     map (\<lambda>i. if sel i then reduceItem f i else i) xs = xs"
  by (induction xs) (auto simp: reduceItem_unchanged)

lemma reduceWhere_consistent:
  assumes "planConsistent (fst st)"
  shows "planConsistent (fst (reduceWhere sel f st))"
proof (cases st)
  case (Pair plan m)
  with assms have pc: "planConsistent plan" by simp
  show ?thesis
  proof (cases "m \<or> list_ex (\<lambda>i. sel i \<and> itemChanges f i) (items plan)")
    case True
    have "list_all itemConsistent (map (\<lambda>i. if sel i then reduceItem f i else i) (items plan))"
      using pc by (auto simp: planConsistent_def list_all_iff reduceItem_consistent)
    with True show ?thesis
      by (simp add: Pair reduceWhere_def Let_def recalculate_def planConsistent_def)
  next
    case False
    then have "map (\<lambda>i. if sel i then reduceItem f i else i) (items plan) = items plan"
      by (simp add: map_unchanged)
    with False pc show ?thesis
      by (simp add: Pair reduceWhere_def Let_def recalculate_def planConsistent_def)
  qed
qed

lemma modifyPlan_consistent:
  assumes "planConsistent plan"
  shows "planConsistent (modifyPlan fb0 plan)"
proof -
  define fb where "fb = toLowerCase fb0"
  define st0 where "st0 = (plan, False)"
  define st1 where "st1 = (if budgetConcern fb
                 then reduceWhere (\<lambda>item. True) (if includesStr fb ''very'' then 0.7 else 0.85) st0
                 else st0)"
  define st2 where "st2 = (if riskConcern fb
                 then reduceWhere (\<lambda>item. True) (if includesStr fb ''very'' then 0.75 else 0.9) st1
                 else st1)"
  define st3 where "st3 = (if length (filter (mentioned fb) (items (fst st2))) > 0
                 then reduceWhere (mentioned fb) 0.7 st2
                 else st2)"
  define st4 where "st4 = (if \<not> snd st3 then reduceWhere (\<lambda>item. True) 0.95 st3 else st3)"
  have c0: "planConsistent (fst st0)" using assms by (simp add: st0_def)
  have c1: "planConsistent (fst st1)" using c0 by (simp add: st1_def reduceWhere_consistent)
  have c2: "planConsistent (fst st2)" using c1 by (simp add: st2_def reduceWhere_consistent)
  have c3: "planConsistent (fst st3)" using c2 by (simp add: st3_def reduceWhere_consistent)
  have c4: "planConsistent (fst st4)" using c3 by (simp add: st4_def reduceWhere_consistent)
  have m: "modifyPlan fb0 plan =
      (if snd st4
         then (fst st4)\<lparr> reasoning :=
                 ModifiedText (planTotalCost plan) (planTotalUnits plan)
                   (planTotalCost (fst st4)) (planTotalUnits (fst st4)) \<rparr>
         else fst st4)"
    unfolding modifyPlan_def Let_def st4_def st3_def st2_def st1_def st0_def fb_def ..
  show ?thesis using c4 by (simp add: m planConsistent_def)
qed

lemma unchanged_085_095:
  assumes "\<not> itemChanges 0.85 i"
  shows "\<not> itemChanges 0.95 i"
proof (cases "quantity i")
  case (Fin r)
  from assms Fin have eq: "mathMax (Fin 1) (Fin (of_int \<lfloor>r * 0.85\<rfloor>)) = Fin r"
    by (simp add: itemChanges_def strictNe_def reducedQuantity_def)
  have r1: "r = 1"
  proof (cases "1 < (of_int \<lfloor>r * 0.85\<rfloor> :: real)")
    case True
    with eq have "r = of_int \<lfloor>r * 0.85\<rfloor>" by (simp add: mathMax_def)
    moreover have "of_int \<lfloor>r * 0.85\<rfloor> \<le> r * 0.85" by (rule of_int_floor_le)
    ultimately have "r \<le> r * 0.85" by simp
    with True \<open>r = of_int \<lfloor>r * 0.85\<rfloor>\<close> show ?thesis by simp
  next
    case False
    with eq show ?thesis by (simp add: mathMax_def)
  qed
  show ?thesis
    by (simp add: itemChanges_def strictNe_def reducedQuantity_def Fin r1 mathMax_def)
next
  case PInf
  then show ?thesis
    by (simp add: itemChanges_def strictNe_def reducedQuantity_def signedInf_def mathMax_def)
next
  case NInf
  with assms show ?thesis
    by (simp add: itemChanges_def strictNe_def reducedQuantity_def signedInf_def mathMax_def)
next
  case NaN
  with assms show ?thesis
    by (simp add: itemChanges_def strictNe_def)
qed

section \<open>Feedback about the expense\<close>

lemma reduceWhere_all_quantities:
  "map quantity (items (fst (reduceWhere (\<lambda>item. True) f (plan, m)))) =
     map (\<lambda>i. reducedQuantity f (quantity i)) (items plan)"
  by (simp add: reduceWhere_def Let_def recalculate_def reduceItem_quantity)

lemma reduceWhere_all_snd:
  "snd (reduceWhere (\<lambda>item. True) f (plan, m)) = (m \<or> list_ex (itemChanges f) (items plan))"
  by (simp add: reduceWhere_def Let_def)

lemma reduceWhere_ids:
  "map itemName (items (fst (reduceWhere sel f (plan, m)))) = map itemName (items plan)"
  "map itemId (items (fst (reduceWhere sel f (plan, m)))) = map itemId (items plan)"
  by (simp_all add: reduceWhere_def Let_def recalculate_def reduceItem_names)

lemma reduceWhere_unchanged:
  "\<not> list_ex (itemChanges f) (items plan) \<Longrightarrow>
     reduceWhere (\<lambda>item. True) f (plan, False) = (plan, False)"
  using map_unchanged [of "\<lambda>item. True" f "items plan"]
  by (simp add: reduceWhere_def Let_def recalculate_def)

lemma no_mentions_filter:
  assumes "\<forall>item \<in> set xs. \<not> mentioned fb item"
    and "map itemName ys = map itemName xs" and "map itemId ys = map itemId xs"
  shows "filter (mentioned fb) ys = []"
  using assms
proof (induction xs arbitrary: ys)
  case Nil
  then show ?case by simp
next
  case (Cons x xs)
  from Cons.prems(2) obtain y ys' where ys: "ys = y # ys'" by (cases ys) auto
  with Cons.prems have "\<not> mentioned fb y" by (simp add: mentioned_def)
  moreover from Cons.prems ys have "filter (mentioned fb) ys' = []"
    by (intro Cons.IH) simp_all
  ultimately show ?case by (simp add: ys)
qed

lemma modifyPlan_expensive:
  assumes e: "includesStr (toLowerCase fb0) ''expensive''"
    and v: "\<not> includesStr (toLowerCase fb0) ''very''"
    and r: "\<not> riskConcern (toLowerCase fb0)"
    and n: "\<forall>item \<in> set (items plan). \<not> mentioned (toLowerCase fb0) item"
  shows "map quantity (items (modifyPlan fb0 plan)) =
           map (\<lambda>i. reducedQuantity 0.85 (quantity i)) (items plan)
         \<and> map itemName (items (modifyPlan fb0 plan)) = map itemName (items plan)
         \<and> map itemId (items (modifyPlan fb0 plan)) = map itemId (items plan)"
proof -
  define fb where "fb = toLowerCase fb0"
  define st1 where "st1 = reduceWhere (\<lambda>item. True) 0.85 (plan, False)"
  define st4 where "st4 = (if \<not> snd st1 then reduceWhere (\<lambda>item. True) 0.95 st1 else st1)"
  have b: "budgetConcern fb" using e by (simp add: budgetConcern_def fb_def)
  have q1: "map quantity (items (fst st1)) = map (\<lambda>i. reducedQuantity 0.85 (quantity i)) (items plan)"
    by (simp add: st1_def reduceWhere_all_quantities)
  have ids1: "map itemName (items (fst st1)) = map itemName (items plan)"
     "map itemId (items (fst st1)) = map itemId (items plan)"
    by (simp_all add: st1_def reduceWhere_ids)
  have nm: "filter (mentioned fb) (items (fst st1)) = []"
    using n ids1 unfolding fb_def by (rule no_mentions_filter)
  have m: "modifyPlan fb0 plan =
      (if snd st4
         then (fst st4)\<lparr> reasoning :=
                 ModifiedText (planTotalCost plan) (planTotalUnits plan)
                   (planTotalCost (fst st4)) (planTotalUnits (fst st4)) \<rparr>
         else fst st4)"
    using b v r nm unfolding modifyPlan_def Let_def st4_def st1_def fb_def by simp
  have st4: "st4 = st1"
  proof (cases "snd st1")
    case True
    then show ?thesis by (simp add: st4_def)
  next
    case False
    then have nc: "\<not> list_ex (itemChanges 0.85) (items plan)"
      by (simp add: st1_def reduceWhere_all_snd)
    then have s1: "st1 = (plan, False)"
      by (simp add: st1_def reduceWhere_unchanged)
    from nc have "\<not> list_ex (itemChanges 0.95) (items plan)"
      using unchanged_085_095 unfolding list_ex_iff by blast
    then show ?thesis
      by (simp add: st4_def s1 reduceWhere_unchanged)
  qed
  show ?thesis
    using q1 ids1 by (simp add: m st4)
qed

section \<open>The band of the refined pipeline\<close>

lemma insort_key_map:
  "insort_key k (f x) (map f xs) = map f (insort_key (\<lambda>r. k (f r)) x xs)"
  by (induction xs) simp_all

lemma sort_key_map: "sort_key k (map f xs) = map f (sort_key (\<lambda>r. k (f r)) xs)"
  by (induction xs) (simp_all add: insort_key_map)

lemma newestFirst_map:
  "\<forall>p. dateOf (f p) = dateOf p \<Longrightarrow> newestFirst dateOf (map f xs) = map f (newestFirst dateOf xs)"
  by (simp add: newestFirst_def sort_key_map)

lemma newestOfGroup_map:
  "\<forall>p. date (f p) = date p \<Longrightarrow> newestOfGroup (map f xs) = map f (newestOfGroup xs)"
  by (simp add: newestOfGroup_def newestFirst_map take_map)

lemma newestPredictions_map:
  assumes i: "\<forall>p. item_id (f p) = item_id p" and d: "\<forall>p. date (f p) = date p"
  shows "newestPredictions (map f allPredictions) itemIds = map f (newestPredictions allPredictions itemIds)"
proof -
  have ids: "map item_id (map f allPredictions) = map item_id allPredictions"
    using i by simp
  have g: "newestOfGroup (filter (\<lambda>p. item_id p = k) (map f allPredictions)) =
           map f (newestOfGroup (filter (\<lambda>p. item_id p = k) allPredictions))" for k
    using i by (simp add: filter_map o_def newestOfGroup_map [OF d])
  have c: "concat (map (\<lambda>k. newestOfGroup (filter (\<lambda>p. item_id p = k) (map f allPredictions))) ks) =
           map f (concat (map (\<lambda>k. newestOfGroup (filter (\<lambda>p. item_id p = k) allPredictions)) ks))" for ks
    by (simp only: g) (simp add: map_concat o_def)
  show ?thesis
    unfolding newestPredictions_def ids c
    using i by (simp add: filter_map o_def)
qed

lemma find_targetQuantity:
  assumes "map (\<lambda>d. (demandItemId d, targetQuantity d)) ds = map (\<lambda>d. (demandItemId d, targetQuantity d)) ds'"
  shows "map_option targetQuantity (find (\<lambda>d. demandItemId d = x) ds) =
         map_option targetQuantity (find (\<lambda>d. demandItemId d = x) ds')"
  using assms
proof (induction ds arbitrary: ds')
  case Nil
  then show ?case by simp
next
  case (Cons d ds)
  then obtain d' ds'' where "ds' = d' # ds''" by (cases ds') auto
  with Cons show ?case by auto
qed

lemma proposal_cong:
  assumes "map (\<lambda>d. (demandItemId d, targetQuantity d)) ds = map (\<lambda>d. (demandItemId d, targetQuantity d)) ds'"
    and "demandItemId d = demandItemId d'" "demandItemName d = demandItemName d'"
    "targetQuantity d = targetQuantity d'"
  shows "proposal svc ds d = proposal svc ds' d'"
proof -
  from find_targetQuantity [OF assms(1), of "demandItemId d"]
  show ?thesis
    by (auto simp: proposal_def assms(2-4) split: option.splits)
qed

lemma find_self:
  assumes "distinct (map demandItemId ds)" "d \<in> set ds"
  shows "find (\<lambda>x. demandItemId x = demandItemId d) ds = Some d"
  using assms
proof (induction ds)
  case Nil
  then show ?case by simp
next
  case (Cons a ds)
  then show ?case by (auto simp: image_iff)
qed

lemma proposal_own:
  assumes "distinct (map demandItemId ds)" "d \<in> set ds"
  shows "proposal svc ds d = ownProposal svc d"
  by (simp add: proposal_def ownProposal_def find_self [OF assms] split: option.splits)

lemma distinct_firstOccurrences: "distinct (firstOccurrences ks)"
  by (simp add: firstOccurrences_def)

lemma distinct_objectKeys: "distinct ks \<Longrightarrow> distinct (objectKeys ks)"
  by (auto simp: objectKeys_def)

lemma distinct_groups:
  assumes "distinct ks" "\<And>k. \<forall>p \<in> set (g k). item_id p = k" "\<And>k. length (g k) \<le> 1"
  shows "distinct (map item_id (concat (map g ks)))"
  using assms(1)
proof (induction ks)
  case Nil
  then show ?case by simp
next
  case (Cons k ks)
  have one: "distinct (map item_id (g k))"
    using assms(3) [of k] by (cases "g k") auto
  have "set (map item_id (g k)) \<inter> set (map item_id (concat (map g ks))) = {}"
    using Cons.prems assms(2) by fastforce
  with Cons one show ?case by simp
qed

lemma distinct_newestPredictions: "distinct (map item_id (newestPredictions allPredictions itemIds))"
proof -
  have "distinct (map item_id (concat (map (\<lambda>k. newestOfGroup (filter (\<lambda>p. item_id p = k) allPredictions))
                    (objectKeys (firstOccurrences (map item_id allPredictions))))))"
  proof (rule distinct_groups)
    show "distinct (objectKeys (firstOccurrences (map item_id allPredictions)))"
      by (simp add: distinct_objectKeys distinct_firstOccurrences)
  next
    fix k
    show "\<forall>p\<in>set (newestOfGroup (filter (\<lambda>p. item_id p = k) allPredictions)). item_id p = k"
      by (auto simp: newestOfGroup_def newestFirst_def dest!: in_set_takeD)
  next
    fix k
    show "length (newestOfGroup (filter (\<lambda>p. item_id p = k) allPredictions)) \<le> 1"
      by (simp add: newestOfGroup_def)
  qed
  then show ?thesis
    unfolding newestPredictions_def by (rule distinct_map_filter)
qed

lemma analyze_ids: "map demandItemId (analyzeDemandRefined svc biz preds) = map item_id preds"
  "map targetQuantity (analyzeDemandRefined svc biz preds) = map yhat preds"
  by (simp_all add: analyzeDemandRefined_def Let_def)

lemma generate_own:
  assumes "distinct (map demandItemId ds)"
  shows "items (generatePurchasePlanRefined svc ds) =
     applyBudget (Fin (getCurrentBudget svc)) (Fin 0) (concat (map (ownProposal svc) ds))"
proof -
  have h: "map (proposal svc ds) ds = map (ownProposal svc) ds"
    by (rule map_cong [OF refl]) (simp add: proposal_own [OF assms])
  show ?thesis by (simp only: generate_items h)
qed

lemma generate_cong:
  assumes "map (\<lambda>d. (demandItemId d, demandItemName d, targetQuantity d)) ds =
           map (\<lambda>d. (demandItemId d, demandItemName d, targetQuantity d)) ds'"
  shows "generatePurchasePlanRefined svc ds = generatePurchasePlanRefined svc ds'"
proof -
  have len: "length ds = length ds'" using assms by (rule map_eq_imp_length_eq)
  have pt: "map (\<lambda>d. (demandItemId d, targetQuantity d)) ds = map (\<lambda>d. (demandItemId d, targetQuantity d)) ds'"
  proof (rule nth_equalityI)
    show "length (map (\<lambda>d. (demandItemId d, targetQuantity d)) ds) = length (map (\<lambda>d. (demandItemId d, targetQuantity d)) ds')"
      by (simp add: len)
  next
    fix k assume "k < length (map (\<lambda>d. (demandItemId d, targetQuantity d)) ds)"
    then have k: "k < length ds" by simp
    from arg_cong [OF assms, of "\<lambda>xs. xs ! k"] k len
    show "map (\<lambda>d. (demandItemId d, targetQuantity d)) ds ! k = map (\<lambda>d. (demandItemId d, targetQuantity d)) ds' ! k"
      by simp
  qed
  have "map (proposal svc ds) ds = map (proposal svc ds') ds'"
  proof (rule nth_equalityI)
    show "length (map (proposal svc ds) ds) = length (map (proposal svc ds') ds')" by (simp add: len)
  next
    fix k assume "k < length (map (proposal svc ds) ds)"
    then have k: "k < length ds" by simp
    from arg_cong [OF assms, of "\<lambda>xs. xs ! k"] k len
    have "demandItemId (ds ! k) = demandItemId (ds' ! k)" "demandItemName (ds ! k) = demandItemName (ds' ! k)"
      "targetQuantity (ds ! k) = targetQuantity (ds' ! k)" by simp_all
    then have "proposal svc ds (ds ! k) = proposal svc ds' (ds' ! k)"
      by (rule proposal_cong [OF pt])
    with k len show "map (proposal svc ds) ds ! k = map (proposal svc ds') ds' ! k" by simp
  qed
  then show ?thesis
    by (simp add: generatePurchasePlanRefined_def Let_def planLoop)
qed

lemma plan_independent_of_bounds:
  "generatePurchasePlanRefined svc (analyzeDemandRefined svc biz
      (newestPredictions (map (\<lambda>p. p\<lparr> lo := l p, hi := h p \<rparr>) allPredictions) itemIds)) =
   generatePurchasePlanRefined svc (analyzeDemandRefined svc biz
      (newestPredictions allPredictions itemIds))"
proof -
  have n: "newestPredictions (map (\<lambda>p. p\<lparr> lo := l p, hi := h p \<rparr>) allPredictions) itemIds =
        map (\<lambda>p. p\<lparr> lo := l p, hi := h p \<rparr>) (newestPredictions allPredictions itemIds)"
    by (rule newestPredictions_map) simp_all
  show ?thesis
    unfolding n
    by (rule generate_cong)
       (simp add: analyzeDemandRefined_def Let_def actualProductName_def o_def split: option.splits)
qed

section \<open>The workflow and the history tables\<close>

lemma checkHuman_iff:
  "checkHumanInputRequired svc plan =
     (\<exists>item \<in> set (items plan). \<exists>skuCost.
        skuCostData svc (productIdOf (itemId item)) = Some skuCost \<and>
        gt (mul (quantity item) (Fin (holdingCost skuCost)))
           (mul (quantity item) (Fin (shortageCost skuCost))))"
  by (auto simp: checkHumanInputRequired_def list_ex_iff itemNeedsReview_def Let_def
      split: option.splits)

lemma gateAndFinish_cases:
  "gateAndFinish svc env st plan =
     (if checkHumanInputRequired svc plan
      then Inr (st\<lparr> status := WaitingForInput, awaitingHumanInput := True, showResults := False \<rparr>)
      else (case rejects env FinalAgentConsensus of
              Some e \<Rightarrow> Inl (e, st)
            | None \<Rightarrow> Inr (st\<lparr> showResults := True, status := Complete \<rparr>)))"
  by (simp add: gateAndFinish_def Let_def)

lemma tryBlock_Inr:
  assumes "tryBlock svc env ids st0 = Inr st"
  shows "\<exists>plan. purchasePlan st = Some plan \<and>
           (if checkHumanInputRequired svc plan then status st = WaitingForInput
            else status st = Complete)"
  using assms
  by (auto simp: tryBlock_def gateAndFinish_cases Let_def split: option.splits sum.splits if_splits)

lemma tryBlock_Inl:
  assumes "tryBlock svc env ids st0 = Inl (e, st)"
  shows "status st = status st0 \<and> messages st = messages st0 \<and>
         (purchasePlan st = purchasePlan st0
          \<or> rejects env ApplyWarehouseConstraints = Some e
          \<or> (\<exists>plan. purchasePlan st = Some plan \<and> \<not> checkHumanInputRequired svc plan))"
  using assms
  by (auto simp: tryBlock_def gateAndFinish_cases Let_def split: option.splits sum.splits if_splits)

lemma gate_rule:
  assumes "rejects env ApplyWarehouseConstraints = None"
  shows "(status (runWorkflow svc env itemIds) = WaitingForInput) =
           (\<exists>item \<in> set (currentItems (runWorkflow svc env itemIds)). \<exists>skuCost.
               skuCostData svc (productIdOf (itemId item)) = Some skuCost \<and>
               gt (mul (quantity item) (Fin (holdingCost skuCost)))
                  (mul (quantity item) (Fin (shortageCost skuCost))))
         \<and> (status (runWorkflow svc env itemIds) = WaitingForInput
              \<or> status (runWorkflow svc env itemIds) = Complete)"
proof (cases "tryBlock svc env itemIds initialState")
  case (Inl p)
  obtain e st where p: "p = (e, st)" by (cases p)
  from tryBlock_Inl [OF Inl [unfolded p]] assms
  have "purchasePlan st = None \<or> (\<exists>plan. purchasePlan st = Some plan \<and> \<not> checkHumanInputRequired svc plan)"
    by (auto simp: initialState_def)
  then show ?thesis
    by (auto simp: runWorkflow_def Inl p catchError_def currentItems_def checkHuman_iff)
next
  case (Inr st)
  from tryBlock_Inr [OF Inr] show ?thesis
    by (auto simp: runWorkflow_def Inr currentItems_def checkHuman_iff split: if_splits)
qed

lemma run_never_running:
  "status (runWorkflow svc env itemIds) \<noteq> Running
   \<and> status (runWorkflow svc env itemIds) \<noteq> Ready
   \<and> (case tryBlock svc env itemIds initialState of
         Inl (e, state) \<Rightarrow>
           runWorkflow svc env itemIds =
             state\<lparr> messages := messages state @ [errorMessage e], status := Complete \<rparr>
           \<and> messages (runWorkflow svc env itemIds) = [errorMessage e]
           \<and> demandResults (runWorkflow svc env itemIds) = demandResults state
           \<and> purchasePlan (runWorkflow svc env itemIds) = purchasePlan state
       | Inr state \<Rightarrow>
           runWorkflow svc env itemIds = state
           \<and> messages state = []
           \<and> (status state = WaitingForInput \<or> status state = Complete))"
proof (cases "tryBlock svc env itemIds initialState")
  case (Inl p)
  obtain e st where p: "p = (e, st)" by (cases p)
  from tryBlock_Inl [OF Inl [unfolded p]]
  have "status st = Running" "messages st = []" by (simp_all add: initialState_def)
  then show ?thesis
    by (simp add: runWorkflow_def Inl p catchError_def)
next
  case (Inr st)
  have m: "messages st = []"
    using Inr
    unfolding initialState_def
    by (auto simp: tryBlock_def gateAndFinish_cases Let_def
        split: option.splits sum.splits if_splits)
  from tryBlock_Inr [OF Inr] m show ?thesis
    by (auto simp: runWorkflow_def Inr split: if_splits)
qed

lemma tryBlock_faults:
  "(rejects env StartAgentConversation = Some e \<longrightarrow> tryBlock svc env ids st = Inl (e, st))
   \<and> (rejects env StartAgentConversation = None \<and> scoredCsv env = Inl e \<longrightarrow>
        tryBlock svc env ids st = Inl (e, st))
   \<and> ((\<forall>s. rejects env s = None) \<and> scoredCsv env = Inr preds \<and> groupingError preds = None \<longrightarrow>
        (\<exists>st'. tryBlock svc env ids st = Inr st'))"
  by (auto simp: tryBlock_def gateAndFinish_cases Let_def)

lemma getCurrentBudget_last: "budgetData svc \<noteq> [] \<Longrightarrow> getCurrentBudget svc = budget (last (budgetData svc))"
  by (simp add: getCurrentBudget_def last_conv_nth)

lemma newestFirst_head:
  assumes "newestFirst dateOf rows = latest # rest"
  shows "latest \<in> set rows \<and> (\<forall>r \<in> set rows. dateOf r \<le> dateOf latest)"
proof -
  have s: "sorted (map (\<lambda>r. - dateOf r) (newestFirst dateOf rows))"
    by (simp add: newestFirst_def)
  have e: "set (newestFirst dateOf rows) = set rows"
    by (simp add: newestFirst_def)
  from s assms have "\<forall>r \<in> set rest. - dateOf latest \<le> - dateOf r" by simp
  with e assms show ?thesis by auto
qed

lemma capacity_latest:
  "getCurrentWarehouseCapacity svc w =
     (if filter (\<lambda>c. warehouse c = w) (warehouseConstraints svc) = [] then 1000
      else capacity (hd (newestFirst constraintDate (filter (\<lambda>c. warehouse c = w) (warehouseConstraints svc)))))"
  "filter (\<lambda>c. warehouse c = w) (warehouseConstraints svc) \<noteq> [] \<Longrightarrow>
     \<exists>latest \<in> set (warehouseConstraints svc). warehouse latest = w
        \<and> getCurrentWarehouseCapacity svc w = capacity latest
        \<and> (\<forall>c \<in> set (warehouseConstraints svc). warehouse c = w \<longrightarrow> constraintDate c \<le> constraintDate latest)"
proof -
  let ?rows = "filter (\<lambda>c. warehouse c = w) (warehouseConstraints svc)"
  have ne: "newestFirst constraintDate ?rows = [] \<longleftrightarrow> ?rows = []"
    by (metis length_0_conv length_sort newestFirst_def)
  show "getCurrentWarehouseCapacity svc w =
     (if ?rows = [] then 1000 else capacity (hd (newestFirst constraintDate ?rows)))"
    using ne by (cases "newestFirst constraintDate ?rows")
      (auto simp: getCurrentWarehouseCapacity_def)
  assume "?rows \<noteq> []"
  with ne obtain latest rest where l: "newestFirst constraintDate ?rows = latest # rest"
    by (cases "newestFirst constraintDate ?rows") auto
  from newestFirst_head [OF l] have "latest \<in> set ?rows"
    "\<forall>r \<in> set ?rows. constraintDate r \<le> constraintDate latest" by simp_all
  moreover have "getCurrentWarehouseCapacity svc w = capacity latest"
    using l \<open>?rows \<noteq> []\<close> by (auto simp: getCurrentWarehouseCapacity_def)
  ultimately show "\<exists>latest \<in> set (warehouseConstraints svc). warehouse latest = w
        \<and> getCurrentWarehouseCapacity svc w = capacity latest
        \<and> (\<forall>c \<in> set (warehouseConstraints svc). warehouse c = w \<longrightarrow> constraintDate c \<le> constraintDate latest)"
    by auto
qed

lemma getCurrentBudget_empty: "budgetData svc = [] \<Longrightarrow> getCurrentBudget svc = 10000"
  by (simp add: getCurrentBudget_def)

lemma sorted_le_last: "sorted (map f xs) \<Longrightarrow> x \<in> set xs \<Longrightarrow> f x \<le> f (last xs)"
  by (induction xs) auto

lemma getCurrentBudget_sorted:
  assumes "budgetData svc \<noteq> []" "sorted (map budgetDate (budgetData svc))"
  shows "getCurrentBudget svc = budget (last (budgetData svc))
         \<and> (\<forall>row \<in> set (budgetData svc). budgetDate row \<le> budgetDate (last (budgetData svc)))"
  using assms by (simp add: getCurrentBudget_last sorted_le_last)

section \<open>Claims\<close>

subsection \<open>The human-review gate\<close>

lemma splitStr_nonempty: "splitStr c s \<noteq> []"
  by (induction s) (auto split: list.splits)

lemma splitStr_no_sep: "c \<notin> set s \<Longrightarrow> splitStr c s = [s]"
  by (induction s) auto

lemma splitStr_sep_length: "2 \<le> length (splitStr c (pre @ c # seg))"
proof (induction pre)
  case Nil
  show ?case using splitStr_nonempty [of c seg] by (cases "splitStr c seg") auto
next
  case (Cons x pre)
  then show ?case by (cases "splitStr c (pre @ c # seg)") auto
qed

lemma last_splitStr: "last (splitStr c (pre @ c # seg)) = last (splitStr c seg)"
proof (induction pre)
  case Nil
  then show ?case by (simp add: splitStr_nonempty)
next
  case (Cons x pre)
  show ?case
  proof (cases "splitStr c (pre @ c # seg)")
    case Nil
    with splitStr_nonempty show ?thesis by blast
  next
    case (Cons s ss)
    with splitStr_sep_length [of c pre seg] have "ss \<noteq> []" by auto
    with Cons Cons.IH show ?thesis by auto
  qed
qed

lemma productIdOf_trailing:
  assumes "seg \<noteq> []" "CHR ''/'' \<notin> set seg"
  shows "productIdOf (pre @ CHR ''/'' # seg) = seg" "productIdOf seg = seg"
  using assms by (simp_all add: productIdOf_def last_splitStr splitStr_no_sep)

lemma example_run_waiting:
  "status (runWorkflow exampleService exampleEnvironment [''32/11/10532'']) = WaitingForInput"
  by code_simp

lemma example_run_complete:
  "status (runWorkflow exampleService exampleEnvironment [''1/11/a'', ''1/11/b'', ''1/11/c''])
     = Complete"
  by code_simp

text \<open>
  The examples of the specification, at the gate itself: quantity 10 with holding cost 5 and
  shortage cost 3 asks for review (50 > 30), holding cost 2 and shortage cost 10 does not
  (20 < 100), and neither does a product without a cost entry.
\<close>

lemma gate_examples:
  "checkHumanInputRequired exampleService (planOf [planItem ''32/11/10530'' ''Product'' 10 13])"
  "\<not> checkHumanInputRequired exampleService (planOf [planItem ''32/11/10531'' ''Product'' 10 20])"
  "\<not> checkHumanInputRequired exampleService (planOf [planItem ''32/11/77'' ''Product'' 10 20])"
  by (simp_all add: checkHumanInputRequired_def itemNeedsReview_def planOf_def planItem_def
      productIdOf_def exampleService_def exampleCosts_def gt_def)

text \<open>
  C2. A run in which the capacity stage does not throw ends in \<^verbatim>\<open>waiting_for_input\<close> if and
  only if some item of the plan the state holds has a cost entry, looked up by
  \<^verbatim>\<open>itemId.split('/').pop() || itemId\<close>, with quantity times holding cost greater than
  quantity times shortage cost; an item without a cost entry does not count, and a run that
  does not wait is complete. For an id with a non-empty last segment the key of the lookup is
  that segment.
\<close>

theorem review_gate:
  assumes "rejects env ApplyWarehouseConstraints = None"
  shows "(status (runWorkflow svc env itemIds) = WaitingForInput) =
           (\<exists>item \<in> set (currentItems (runWorkflow svc env itemIds)). \<exists>skuCost.
               skuCostData svc (productIdOf (itemId item)) = Some skuCost \<and>
               gt (mul (quantity item) (Fin (holdingCost skuCost)))
                  (mul (quantity item) (Fin (shortageCost skuCost))))
         \<and> (status (runWorkflow svc env itemIds) = WaitingForInput
              \<or> status (runWorkflow svc env itemIds) = Complete)
         \<and> (seg \<noteq> [] \<and> CHR ''/'' \<notin> set seg \<longrightarrow>
               productIdOf (pre @ CHR ''/'' # seg) = seg \<and> productIdOf seg = seg)"
  using gate_rule [OF assms, of svc itemIds] productIdOf_trailing
  by blast

theorem review_gate_witness:
  "rejects exampleEnvironment ApplyWarehouseConstraints = None
   \<and> status (runWorkflow exampleService exampleEnvironment [''32/11/10532'']) = WaitingForInput
   \<and> (\<exists>item \<in> set (currentItems (runWorkflow exampleService exampleEnvironment [''32/11/10532''])).
        \<exists>skuCost. skuCostData exampleService (productIdOf (itemId item)) = Some skuCost \<and>
               gt (mul (quantity item) (Fin (holdingCost skuCost)))
                  (mul (quantity item) (Fin (shortageCost skuCost))))
   \<and> status (runWorkflow exampleService exampleEnvironment [''1/11/a'', ''1/11/b'', ''1/11/c''])
       = Complete
   \<and> productIdOf ''32/11/10532'' = ''10532''"
proof -
  have h: "rejects exampleEnvironment ApplyWarehouseConstraints = None"
    by (simp add: exampleEnvironment_def)
  have p: "productIdOf ''32/11/10532'' = ''10532''"
    by (simp add: productIdOf_def)
  from review_gate [OF h, of exampleService "[''32/11/10532'']"] example_run_waiting
    example_run_complete h p
  show ?thesis by simp
qed

subsection \<open>The plan invariant\<close>

lemma processHumanInput_plan:
  "purchasePlan (processHumanInput state input) =
     map_option (modifyPlan (feedback input)) (purchasePlan state)
   \<and> status (processHumanInput state input) = Complete"
  by (simp add: processHumanInput_def modifyPlanBasedOnHumanInput_def Let_def split: option.splits)

lemma example_plan_consistent:
  "planConsistent (planOf [planItem ''32/11/10530'' ''Widget'' 100 15])"
  by (simp add: planConsistent_def planOf_def planItem_def itemConsistent_def)

text \<open>
  C3. The plan that \<^verbatim>\<open>generatePurchasePlanRefined\<close> returns and the plan that the capacity
  filter returns satisfy the invariant (every item's total cost is its quantity times its
  unit cost, the plan's total cost and total units are the sums over its items), whatever
  their input; feedback reconciliation keeps the invariant; so the plan has it after every
  step of the pipeline. \<^verbatim>\<open>processHumanInput\<close> replaces the plan of the state by its
  reconciliation with the feedback.
\<close>

theorem plan_invariant:
  "planConsistent (generatePurchasePlanRefined svc demands)
   \<and> planConsistent (applyCapacity cap plan)
   \<and> planConsistent (applyWarehouseConstraints svc plan)
   \<and> (planConsistent plan \<longrightarrow> planConsistent (modifyPlan fb plan))
   \<and> planConsistent
        (modifyPlan fb (applyWarehouseConstraints svc (generatePurchasePlanRefined svc demands)))
   \<and> purchasePlan (processHumanInput state input) =
        map_option (modifyPlan (feedback input)) (purchasePlan state)"
  by (simp add: generate_consistent capacity_consistent applyWarehouseConstraints_def
      modifyPlan_consistent processHumanInput_plan)

theorem plan_invariant_witness:
  "planConsistent (planOf [planItem ''32/11/10530'' ''Widget'' 100 15])
   \<and> planConsistent
        (modifyPlan ''That's too expensive'' (planOf [planItem ''32/11/10530'' ''Widget'' 100 15]))
   \<and> planConsistent (generatePurchasePlanRefined exampleService
         (analyzeDemandRefined exampleService [] exampleForecasts))"
  using plan_invariant [of exampleService "analyzeDemandRefined exampleService [] exampleForecasts"
      100 "planOf [planItem ''32/11/10530'' ''Widget'' 100 15]" "''That's too expensive''"]
    example_plan_consistent
  by simp

subsection \<open>The budget filter\<close>

lemma example_budget: "getCurrentBudget exampleService = 650"
  by (simp add: getCurrentBudget_def exampleService_def)

lemma example_quantities:
  "calculateNewsvendorQuantity (Fin 3) (Fin (12 / 5)) (Fin (18 / 5)) 50 90 = Fin 3"
  "calculateNewsvendorQuantity (Fin 5) (Fin 4) (Fin 6) 50 90 = Fin 5"
  by (simp_all add: calculateNewsvendorQuantity_def criticalRatioOf_def purchasingPriceOf_def
      stdDevOf_def sub_def divide_def Let_def split1_def split2_def polyA_def polyB_def
      mathMax_def)

lemma example_product_ids:
  "productIdOf ''1/11/a'' = ''a''" "productIdOf ''1/11/b'' = ''b''" "productIdOf ''1/11/c'' = ''c''"
  by (simp_all add: productIdOf_def)

lemma ledger_proposals:
  "concat (map (proposal exampleService ledgerDemands) ledgerDemands) =
     [planItem ''1/11/a'' ''Product'' 3 100, planItem ''1/11/b'' ''Product'' 3 100,
      planItem ''1/11/c'' ''Product'' 5 100]"
  by (simp add: ledgerDemands_def analyzeDemandRefined_def Let_def forecast_def proposal_def
      example_product_ids exampleService_def exampleCosts_def example_quantities
      actualProductName_def itemIdToProductName_def planItem_def)

text \<open>
  C4. The items of the generated plan are the proposed items filtered by \<open>applyBudget\<close>:
  taken in the order of the demand results with a running total that starts at 0, an item is
  admitted exactly when the running total plus its cost is at most the budget, it is then
  kept as proposed and its cost is added; otherwise it is dropped and the running total is
  left alone. Items that cost 300, 300 and 500 against the budget 650 give the first two,
  with the total 600.
\<close>

theorem budget_ledger:
  "items (generatePurchasePlanRefined svc demands) =
     applyBudget (Fin (getCurrentBudget svc)) (Fin 0) (concat (map (proposal svc demands) demands))
   \<and> planTotalCost (generatePurchasePlanRefined svc demands) =
       sumTotalCost (items (generatePurchasePlanRefined svc demands))
   \<and> map totalCost (concat (map (proposal exampleService ledgerDemands) ledgerDemands)) =
       [Fin 300, Fin 300, Fin 500]
   \<and> getCurrentBudget exampleService = 650
   \<and> map totalCost (items (generatePurchasePlanRefined exampleService ledgerDemands)) =
       [Fin 300, Fin 300]
   \<and> map quantity (items (generatePurchasePlanRefined exampleService ledgerDemands)) =
       [Fin 3, Fin 3]
   \<and> planTotalCost (generatePurchasePlanRefined exampleService ledgerDemands) = Fin 600"
proof -
  have c: "planConsistent (generatePurchasePlanRefined svc demands)" for svc demands
    by (rule generate_consistent)
  have i: "items (generatePurchasePlanRefined exampleService ledgerDemands) =
      [planItem ''1/11/a'' ''Product'' 3 100, planItem ''1/11/b'' ''Product'' 3 100]"
    by (simp add: generate_items ledger_proposals example_budget planItem_def)
  show ?thesis
    using c [of svc demands] c [of exampleService ledgerDemands]
    by (simp add: generate_items [of svc demands] planConsistent_def i ledger_proposals
        example_budget planItem_def sumTotalCost_def)
qed

theorem budget_ledger_witness:
  "items (generatePurchasePlanRefined exampleService ledgerDemands) =
     [planItem ''1/11/a'' ''Product'' 3 100, planItem ''1/11/b'' ''Product'' 3 100]"
  using budget_ledger [of exampleService ledgerDemands]
  by (simp add: ledger_proposals example_budget planItem_def)

subsection \<open>The capacity filter\<close>

text \<open>
  C5. For every plan and capacity the capacity filter returns, in order, the items whose
  clamped quantity \<open>min(quantity, capacity)\<close> is greater than 0, each with that quantity and
  with its total cost recomputed as the clamped quantity times its unit cost; the other
  items, those clamped to 0 among them, are removed. Quantity 150 under capacity 100 becomes
  quantity 100 with total cost \<open>100 \<times> unitCost\<close>.
\<close>

theorem capacity_clamp:
  "items (applyCapacity cap plan) =
     map (clampItem cap)
       (filter (\<lambda>item. gt (mathMin (quantity item) (Fin cap)) (Fin 0)) (items plan))
   \<and> applyWarehouseConstraints svc plan = applyCapacity (getCurrentWarehouseCapacity svc 11) plan
   \<and> quantity (clampItem cap item) = mathMin (quantity item) (Fin cap)
   \<and> totalCost (clampItem cap item) = mul (mathMin (quantity item) (Fin cap)) (unitCost item)
   \<and> unitCost (clampItem cap item) = unitCost item
   \<and> itemId (clampItem cap item) = itemId item
   \<and> itemName (clampItem cap item) = itemName item
   \<and> planTotalCost (applyCapacity cap plan) = sumTotalCost (items (applyCapacity cap plan))
   \<and> planTotalUnits (applyCapacity cap plan) = sumQuantity (items (applyCapacity cap plan))
   \<and> items (applyCapacity 100 (planOf [planItem i n 150 u, planItem i' n' 0 u'])) =
        [planItem i n 100 u]"
  using capacity_consistent [of cap plan]
  by (simp add: applyCapacity_items applyWarehouseConstraints_def clampItem_def planConsistent_def
      planOf_def planItem_def mathMin_def gt_def)

theorem capacity_clamp_witness:
  "items (applyWarehouseConstraints exampleService (planOf [planItem ''1/11/a'' ''Product'' 150 7])) =
     [planItem ''1/11/a'' ''Product'' 100 7]"
proof -
  have "getCurrentWarehouseCapacity exampleService 11 = 100"
    by (simp add: getCurrentWarehouseCapacity_def exampleService_def newestFirst_def)
  with capacity_clamp [of 100 "planOf [planItem ''1/11/a'' ''Product'' 150 7]" exampleService]
  show ?thesis
    by (simp add: clampItem_def planOf_def planItem_def mathMin_def gt_def)
qed

subsection \<open>The confidence score\<close>

text \<open>
  C6. The confidence of a forecast record is not always between 0.1 and 0.95: when the
  record carries the score \<^verbatim>\<open>NaN\<close>, which \<^verbatim>\<open>parseCSV\<close> delivers for a malformed or
  missing field, \<^verbatim>\<open>Math.max(0.1, Math.min(0.95, NaN))\<close> is \<^verbatim>\<open>NaN\<close>, and so is the derived
  confidence of a record without a score whose forecast is \<^verbatim>\<open>NaN\<close>; \<^verbatim>\<open>NaN\<close> is neither
  at least 0.1 nor at most 0.95. (On every other record the confidence is in the interval,
  and it is the clamped score or the clamped \<open>1 - (hi - lo) / max(yhat, 1)\<close>, also for a
  zero or negative forecast: \<open>confidence_range_or_nan\<close>, \<open>confidence_with_score\<close>,
  \<open>confidence_finite\<close>.)
\<close>

theorem confidence_nan:
  "calculateConfidence (forecast ''1/11/a'' 5 \<lparr> confidence_score := Some NaN \<rparr>) = NaN
   \<and> calculateConfidence (forecast ''1/11/a'' 5 \<lparr> yhat := NaN, confidence_score := None \<rparr>) = NaN
   \<and> \<not> le (Fin 0.1) (calculateConfidence (forecast ''1/11/a'' 5 \<lparr> confidence_score := Some NaN \<rparr>))
   \<and> \<not> le (calculateConfidence (forecast ''1/11/a'' 5 \<lparr> confidence_score := Some NaN \<rparr>)) (Fin 0.95)
   \<and> calculateConfidence (forecast ''1/11/a'' 0 \<lparr> confidence_score := None \<rparr>) = Fin 0.1
   \<and> calculateConfidence (forecast ''1/11/a'' (- 4) \<lparr> confidence_score := None \<rparr>) = Fin 0.1
   \<and> calculateConfidence (forecast ''1/11/a'' 10 \<lparr> confidence_score := None \<rparr>) = Fin 0.8
   \<and> calculateConfidence (forecast ''1/11/a'' 10 \<lparr> confidence_score := Some (Fin 2) \<rparr>) = Fin 0.95"
  by (simp add: calculateConfidence_def forecast_def Let_def mathMax_def mathMin_def sub_def
      divide_def)

subsection \<open>Reconciliation is not idempotent\<close>

lemma startsWith_length: "startsWith s n \<Longrightarrow> length n \<le> length s"
  by (induction s n rule: startsWith.induct) simp_all

lemma includesStr_length: "includesStr h n \<Longrightarrow> length n \<le> length h"
  by (induction h) (auto dest: startsWith_length)

lemma not_mentioned_long:
  assumes "length fb < length (itemName item)" "length fb < length (itemId item)"
  shows "\<not> mentioned fb item"
  using assms includesStr_length [of fb "toLowerCase (itemName item)"]
    includesStr_length [of fb "toLowerCase (itemId item)"]
  by (auto simp: mentioned_def toLowerCase_def)

lemma mentions_transfer:
  assumes "\<forall>item \<in> set xs. \<not> mentioned fb item"
    and "map itemName ys = map itemName xs" and "map itemId ys = map itemId xs"
  shows "\<forall>item \<in> set ys. \<not> mentioned fb item"
  using no_mentions_filter [OF assms] by (simp add: filter_empty_conv)

lemma lowered_feedback: "toLowerCase ''That's too expensive'' = ''that's too expensive''"
  by code_simp

text \<open>
  C7. For a feedback text whose lower case contains \<^verbatim>\<open>expensive\<close> and none of
  \<^verbatim>\<open>very\<close>, \<^verbatim>\<open>risk\<close>, \<^verbatim>\<open>conservative\<close>, \<^verbatim>\<open>safe\<close>: on a plan none of whose item names
  and ids occurs in the text, one reconciliation leaves every item with the quantity
  \<open>max(1, floor(quantity \<times> 0.85))\<close>, and a second one with the same text applies the same
  reduction to the reduced quantities; and there is such a plan on which the quantities after
  two reconciliations differ from those after one.
\<close>

theorem expensive_feedback_not_idempotent:
  assumes e: "includesStr (toLowerCase fb) ''expensive''"
    and v: "\<not> includesStr (toLowerCase fb) ''very''"
    and r: "\<not> riskConcern (toLowerCase fb)"
  shows "((\<forall>item \<in> set (items plan). \<not> mentioned (toLowerCase fb) item) \<longrightarrow>
            map quantity (items (modifyPlan fb plan)) =
              map (\<lambda>item. reducedQuantity 0.85 (quantity item)) (items plan)
            \<and> map quantity (items (modifyPlan fb (modifyPlan fb plan))) =
              map (\<lambda>item. reducedQuantity 0.85 (reducedQuantity 0.85 (quantity item)))
                (items plan))
         \<and> (\<exists>p. (\<forall>item \<in> set (items p). \<not> mentioned (toLowerCase fb) item)
                \<and> map quantity (items (modifyPlan fb (modifyPlan fb p))) \<noteq>
                   map quantity (items (modifyPlan fb p)))"
proof -
  have once: "map quantity (items (modifyPlan fb q)) =
                map (\<lambda>item. reducedQuantity 0.85 (quantity item)) (items q)
              \<and> map quantity (items (modifyPlan fb (modifyPlan fb q))) =
                map (\<lambda>item. reducedQuantity 0.85 (reducedQuantity 0.85 (quantity item))) (items q)"
    if n: "\<forall>item \<in> set (items q). \<not> mentioned (toLowerCase fb) item" for q
  proof -
    note first = modifyPlan_expensive [OF e v r n]
    from first have n': "\<forall>item \<in> set (items (modifyPlan fb q)). \<not> mentioned (toLowerCase fb) item"
      using mentions_transfer [OF n] by blast
    note second = modifyPlan_expensive [OF e v r n']
    have "map (\<lambda>i. reducedQuantity 0.85 (quantity i)) (items (modifyPlan fb q)) =
          map (reducedQuantity 0.85) (map quantity (items (modifyPlan fb q)))"
      by (simp add: o_def)
    also have "\<dots> = map (\<lambda>item. reducedQuantity 0.85 (reducedQuantity 0.85 (quantity item))) (items q)"
      using first by (simp add: o_def)
    finally show ?thesis using first second by simp
  qed
  define nm where "nm = replicate (Suc (length fb)) (CHR ''x'')"
  define p where "p = planOf [planItem nm nm 100 1]"
  have "\<not> mentioned (toLowerCase fb) (planItem nm nm 100 1)"
    by (rule not_mentioned_long) (simp_all add: planItem_def nm_def toLowerCase_def)
  then have n: "\<forall>item \<in> set (items p). \<not> mentioned (toLowerCase fb) item"
    by (simp add: p_def planOf_def)
  from once [OF n] have "map quantity (items (modifyPlan fb (modifyPlan fb p))) \<noteq>
                   map quantity (items (modifyPlan fb p))"
    by (simp add: p_def planOf_def planItem_def reducedQuantity_def mathMax_def)
  with n once show ?thesis by blast
qed

theorem expensive_feedback_witness:
  "includesStr (toLowerCase ''That's too expensive'') ''expensive''
   \<and> \<not> includesStr (toLowerCase ''That's too expensive'') ''very''
   \<and> \<not> riskConcern (toLowerCase ''That's too expensive'')
   \<and> \<not> mentioned (toLowerCase ''That's too expensive'') (planItem ''32/11/10530'' ''Widget'' 100 15)
   \<and> map quantity (items (modifyPlan ''That's too expensive''
         (planOf [planItem ''32/11/10530'' ''Widget'' 100 15]))) = [Fin 85]
   \<and> map quantity (items (modifyPlan ''That's too expensive'' (modifyPlan ''That's too expensive''
         (planOf [planItem ''32/11/10530'' ''Widget'' 100 15])))) = [Fin 72]"
proof -
  have e: "includesStr (toLowerCase ''That's too expensive'') ''expensive''"
    by (simp add: lowered_feedback)
  have v: "\<not> includesStr (toLowerCase ''That's too expensive'') ''very''"
    by (simp add: lowered_feedback)
  have r: "\<not> riskConcern (toLowerCase ''That's too expensive'')"
    by (simp add: lowered_feedback riskConcern_def)
  have m: "\<not> mentioned (toLowerCase ''That's too expensive'')
             (planItem ''32/11/10530'' ''Widget'' 100 15)"
    by code_simp
  then have n: "\<forall>item \<in> set (items (planOf [planItem ''32/11/10530'' ''Widget'' 100 15])).
                 \<not> mentioned (toLowerCase ''That's too expensive'') item"
    by (simp add: planOf_def)
  from expensive_feedback_not_idempotent
         [OF e v r, of "planOf [planItem ''32/11/10530'' ''Widget'' 100 15]"] n
  have "map quantity (items (modifyPlan ''That's too expensive''
         (planOf [planItem ''32/11/10530'' ''Widget'' 100 15]))) = [Fin 85]
   \<and> map quantity (items (modifyPlan ''That's too expensive'' (modifyPlan ''That's too expensive''
         (planOf [planItem ''32/11/10530'' ''Widget'' 100 15])))) = [Fin 72]"
    by (simp add: planOf_def planItem_def reducedQuantity_def mathMax_def)
  with e v r m show ?thesis by simp
qed

subsection \<open>Errors at the workflow boundary\<close>

lemma example_newest:
  "newestPredictions exampleForecasts [''32/11/10532''] = [forecast ''32/11/10532'' 10]"
  by code_simp

lemma example_grouping:
  "groupingError exampleForecasts = None"
  "groupingError (exampleForecasts @ [forecast ''constructor'' 4]) =
     Some (ErrorObject ''acc[item.item_id].push is not a function'')"
  by code_simp+

lemma example_generated_items:
  "map quantity (items (generatePurchasePlanRefined exampleService
     (analyzeDemandRefined exampleService [] [forecast ''32/11/10532'' 10]))) = [Fin 11]"
  by code_simp

text \<open>
  C8. A run never returns the status \<^verbatim>\<open>running\<close> or \<^verbatim>\<open>ready\<close>. Whichever stage of the
  \<^verbatim>\<open>try\<close> block throws first (the start of the conversation, the load of the forecast
  file, the grouping of the forecasts, the demand analysis, the plan generation, the capacity
  stage, the final consensus), the run returns the state as the stages before it had left it
  (with the demand results once the analysis has returned, with the generated plan once the
  generation has, with the constrained plan once the capacity stage has), the error message
  appended to the empty transcript and the status \<^verbatim>\<open>complete\<close>. When no stage throws, it
  returns the demand results and the constrained plan with the status
  \<^verbatim>\<open>waiting_for_input\<close> if the gate asks for review and \<^verbatim>\<open>complete\<close> otherwise.
\<close>

theorem workflow_error_handling:
  "status (runWorkflow svc env itemIds) \<noteq> Running
   \<and> status (runWorkflow svc env itemIds) \<noteq> Ready
   \<and> (rejects env StartAgentConversation = Some e \<longrightarrow>
         runWorkflow svc env itemIds = catchError e initialState)
   \<and> (rejects env StartAgentConversation = None \<and> scoredCsv env = Inl e \<longrightarrow>
         runWorkflow svc env itemIds = catchError e initialState)
   \<and> (rejects env StartAgentConversation = None \<and> scoredCsv env = Inr preds \<longrightarrow>
        (let demands = analyzeDemandRefined svc (businessData env)
                         (newestPredictions preds itemIds);
             plan1 = generatePurchasePlanRefined svc demands;
             plan2 = applyWarehouseConstraints svc plan1
         in (groupingError preds = Some e \<longrightarrow>
               runWorkflow svc env itemIds =
                 catchError e initialState)
          \<and> (groupingError preds = None \<and> rejects env AnalyzeDemand = Some e \<longrightarrow>
               runWorkflow svc env itemIds =
                 catchError e initialState)
          \<and> (groupingError preds = None \<and> rejects env AnalyzeDemand = None
              \<and> rejects env GeneratePurchasePlan = Some e \<longrightarrow>
               runWorkflow svc env itemIds =
                 catchError e (initialState\<lparr> demandResults := demands \<rparr>))
          \<and> (groupingError preds = None \<and> rejects env AnalyzeDemand = None
              \<and> rejects env GeneratePurchasePlan = None
              \<and> rejects env ApplyWarehouseConstraints = Some e \<longrightarrow>
               runWorkflow svc env itemIds =
                 catchError e (initialState\<lparr> demandResults := demands, purchasePlan := Some plan1 \<rparr>))
          \<and> (groupingError preds = None \<and> rejects env AnalyzeDemand = None
              \<and> rejects env GeneratePurchasePlan = None
              \<and> rejects env ApplyWarehouseConstraints = None
              \<and> checkHumanInputRequired svc plan2 \<longrightarrow>
               runWorkflow svc env itemIds =
                 initialState\<lparr> demandResults := demands, purchasePlan := Some plan2,
                                status := WaitingForInput, awaitingHumanInput := True \<rparr>)
          \<and> (groupingError preds = None \<and> rejects env AnalyzeDemand = None
              \<and> rejects env GeneratePurchasePlan = None
              \<and> rejects env ApplyWarehouseConstraints = None
              \<and> \<not> checkHumanInputRequired svc plan2
              \<and> rejects env FinalAgentConsensus = Some e \<longrightarrow>
               runWorkflow svc env itemIds =
                 catchError e (initialState\<lparr> demandResults := demands, purchasePlan := Some plan2 \<rparr>))
          \<and> (groupingError preds = None \<and> rejects env AnalyzeDemand = None
              \<and> rejects env GeneratePurchasePlan = None
              \<and> rejects env ApplyWarehouseConstraints = None
              \<and> \<not> checkHumanInputRequired svc plan2
              \<and> rejects env FinalAgentConsensus = None \<longrightarrow>
               runWorkflow svc env itemIds =
                 initialState\<lparr> demandResults := demands, purchasePlan := Some plan2,
                                showResults := True, status := Complete \<rparr>)))
   \<and> catchError e state =
         state\<lparr> messages := messages state @ [errorMessage e], status := Complete \<rparr>
   \<and> demandResults (catchError e state) = demandResults state
   \<and> purchasePlan (catchError e state) = purchasePlan state
   \<and> messages initialState = []"
proof -
  have a: "status (runWorkflow svc env itemIds) \<noteq> Running
   \<and> status (runWorkflow svc env itemIds) \<noteq> Ready"
    using run_never_running [of svc env itemIds] by blast
  have b: "(rejects env StartAgentConversation = Some e \<longrightarrow>
         runWorkflow svc env itemIds = catchError e initialState)"
    by (simp add: runWorkflow_def tryBlock_def)
  have c: "(rejects env StartAgentConversation = None \<and> scoredCsv env = Inl e \<longrightarrow>
         runWorkflow svc env itemIds = catchError e initialState)"
    by (simp add: runWorkflow_def tryBlock_def)
  have d: "(rejects env StartAgentConversation = None \<and> scoredCsv env = Inr preds \<longrightarrow>
        (let demands = analyzeDemandRefined svc (businessData env)
                         (newestPredictions preds itemIds);
             plan1 = generatePurchasePlanRefined svc demands;
             plan2 = applyWarehouseConstraints svc plan1
         in (groupingError preds = Some e \<longrightarrow>
               runWorkflow svc env itemIds =
                 catchError e initialState)
          \<and> (groupingError preds = None \<and> rejects env AnalyzeDemand = Some e \<longrightarrow>
               runWorkflow svc env itemIds =
                 catchError e initialState)
          \<and> (groupingError preds = None \<and> rejects env AnalyzeDemand = None
              \<and> rejects env GeneratePurchasePlan = Some e \<longrightarrow>
               runWorkflow svc env itemIds =
                 catchError e (initialState\<lparr> demandResults := demands \<rparr>))
          \<and> (groupingError preds = None \<and> rejects env AnalyzeDemand = None
              \<and> rejects env GeneratePurchasePlan = None
              \<and> rejects env ApplyWarehouseConstraints = Some e \<longrightarrow>
               runWorkflow svc env itemIds =
                 catchError e (initialState\<lparr> demandResults := demands, purchasePlan := Some plan1 \<rparr>))
          \<and> (groupingError preds = None \<and> rejects env AnalyzeDemand = None
              \<and> rejects env GeneratePurchasePlan = None
              \<and> rejects env ApplyWarehouseConstraints = None
              \<and> checkHumanInputRequired svc plan2 \<longrightarrow>
               runWorkflow svc env itemIds =
                 initialState\<lparr> demandResults := demands, purchasePlan := Some plan2,
                                status := WaitingForInput, awaitingHumanInput := True \<rparr>)
          \<and> (groupingError preds = None \<and> rejects env AnalyzeDemand = None
              \<and> rejects env GeneratePurchasePlan = None
              \<and> rejects env ApplyWarehouseConstraints = None
              \<and> \<not> checkHumanInputRequired svc plan2
              \<and> rejects env FinalAgentConsensus = Some e \<longrightarrow>
               runWorkflow svc env itemIds =
                 catchError e (initialState\<lparr> demandResults := demands, purchasePlan := Some plan2 \<rparr>))
          \<and> (groupingError preds = None \<and> rejects env AnalyzeDemand = None
              \<and> rejects env GeneratePurchasePlan = None
              \<and> rejects env ApplyWarehouseConstraints = None
              \<and> \<not> checkHumanInputRequired svc plan2
              \<and> rejects env FinalAgentConsensus = None \<longrightarrow>
               runWorkflow svc env itemIds =
                 initialState\<lparr> demandResults := demands, purchasePlan := Some plan2,
                                showResults := True, status := Complete \<rparr>)))"
    by (simp add: runWorkflow_def tryBlock_def gateAndFinish_cases Let_def initialState_def)
  have f: "catchError e state =
         state\<lparr> messages := messages state @ [errorMessage e], status := Complete \<rparr>
   \<and> demandResults (catchError e state) = demandResults state
   \<and> purchasePlan (catchError e state) = purchasePlan state
   \<and> messages initialState = []"
    by (simp add: catchError_def initialState_def)
  from a b c d f show ?thesis by blast
qed

theorem workflow_error_handling_witness:
  "runWorkflow exampleService capacityFailureEnvironment [''32/11/10532''] =
     catchError (ErrorObject ''capacity lookup failed'')
       (initialState
          \<lparr> demandResults :=
              analyzeDemandRefined exampleService [] [forecast ''32/11/10532'' 10],
            purchasePlan := Some (generatePurchasePlanRefined exampleService
              (analyzeDemandRefined exampleService [] [forecast ''32/11/10532'' 10])) \<rparr>)
   \<and> map demandItemId
         (demandResults (runWorkflow exampleService capacityFailureEnvironment [''32/11/10532'']))
       = [''32/11/10532'']
   \<and> map quantity
         (currentItems (runWorkflow exampleService capacityFailureEnvironment [''32/11/10532'']))
       = [Fin 11]
   \<and> messages (runWorkflow exampleService capacityFailureEnvironment [''32/11/10532''])
       = [''Error: capacity lookup failed'']
   \<and> status (runWorkflow exampleService capacityFailureEnvironment [''32/11/10532'']) = Complete
   \<and> runWorkflow exampleService failingEnvironment [''32/11/10532''] =
       initialState\<lparr> messages := [''Error: Failed to load CSV file: Not Found''],
                     status := Complete \<rparr>
   \<and> runWorkflow exampleService inheritedKeyEnvironment [''32/11/10532''] =
       initialState\<lparr> messages := [''Error: acc[item.item_id].push is not a function''],
                     status := Complete \<rparr>"
proof -
  have r1: "runWorkflow exampleService capacityFailureEnvironment [''32/11/10532''] =
     catchError (ErrorObject ''capacity lookup failed'')
       (initialState
          \<lparr> demandResults :=
              analyzeDemandRefined exampleService [] [forecast ''32/11/10532'' 10],
            purchasePlan := Some (generatePurchasePlanRefined exampleService
              (analyzeDemandRefined exampleService [] [forecast ''32/11/10532'' 10])) \<rparr>)"
    using workflow_error_handling [where svc = exampleService and env = capacityFailureEnvironment
        and itemIds = "[''32/11/10532'']" and e = "ErrorObject ''capacity lookup failed''"
        and preds = exampleForecasts]
    by (simp add: capacityFailureEnvironment_def example_grouping example_newest Let_def)
  have r2: "runWorkflow exampleService failingEnvironment [''32/11/10532''] =
       initialState\<lparr> messages := [''Error: Failed to load CSV file: Not Found''],
                     status := Complete \<rparr>"
    using workflow_error_handling [where svc = exampleService and env = failingEnvironment
        and itemIds = "[''32/11/10532'']"
        and e = "ErrorObject ''Failed to load CSV file: Not Found''"]
    by (simp add: failingEnvironment_def catchError_def errorMessage_def initialState_def)
  have r3: "runWorkflow exampleService inheritedKeyEnvironment [''32/11/10532''] =
       initialState\<lparr> messages := [''Error: acc[item.item_id].push is not a function''],
                     status := Complete \<rparr>"
    using workflow_error_handling [where svc = exampleService and env = inheritedKeyEnvironment
        and itemIds = "[''32/11/10532'']"
        and e = "ErrorObject ''acc[item.item_id].push is not a function''"
        and preds = "exampleForecasts @ [forecast ''constructor'' 4]"]
    by (simp add: inheritedKeyEnvironment_def example_grouping catchError_def errorMessage_def
        initialState_def Let_def)
  have d: "map demandItemId (analyzeDemandRefined exampleService [] [forecast ''32/11/10532'' 10])
             = [''32/11/10532'']"
    by (simp add: analyzeDemandRefined_def forecast_def Let_def)
  show ?thesis
    unfolding r1 r2 r3
    by (simp add: catchError_def errorMessage_def initialState_def currentItems_def d
        example_generated_items)
qed

subsection \<open>The current budget and capacity\<close>

text \<open>
  C9. \<^verbatim>\<open>getCurrentBudget\<close> returns the budget of the last row of the history, not of the
  row with the latest date: for the rows (date 2, 500), (date 1, 300) it returns 300, while
  the row that comes first when the rows are ordered newest first holds 500. (With no row it
  returns 10000, and on a history in ascending date order the last row is the latest:
  \<open>getCurrentBudget_empty\<close>, \<open>getCurrentBudget_sorted\<close>. The capacity is that of a latest
  row of the warehouse, and 1000 without one: \<open>capacity_latest\<close>.)
\<close>

theorem budget_not_latest:
  "getCurrentBudget unsortedBudgetService = 300
   \<and> newestFirst budgetDate (budgetData unsortedBudgetService) =
       [\<lparr> budgetDate = 2, budget = 500 \<rparr>, \<lparr> budgetDate = 1, budget = 300 \<rparr>]"
  by (simp add: getCurrentBudget_def unsortedBudgetService_def newestFirst_def)

subsection \<open>The band of the refined pipeline\<close>

lemma groupingError_map:
  "groupingError (map (\<lambda>p. p\<lparr> lo := l p, hi := h p \<rparr>) allPredictions) = groupingError allPredictions"
  by (simp add: groupingError_def list_ex_iff)

lemma run_independent_of_bounds:
  "purchasePlan (runWorkflow svc
      (env\<lparr> scoredCsv := Inr (map (\<lambda>p. p\<lparr> lo := l p, hi := h p \<rparr>) allPredictions) \<rparr>) itemIds) =
   purchasePlan (runWorkflow svc (env\<lparr> scoredCsv := Inr allPredictions \<rparr>) itemIds)
   \<and> status (runWorkflow svc
      (env\<lparr> scoredCsv := Inr (map (\<lambda>p. p\<lparr> lo := l p, hi := h p \<rparr>) allPredictions) \<rparr>) itemIds) =
   status (runWorkflow svc (env\<lparr> scoredCsv := Inr allPredictions \<rparr>) itemIds)"
  by (simp add: runWorkflow_def tryBlock_def gateAndFinish_cases Let_def catchError_def
      plan_independent_of_bounds groupingError_map split: option.splits)

text \<open>
  C10. In the pipeline that \<^verbatim>\<open>runWorkflow\<close> runs (the newest forecast of every requested
  item, \<^verbatim>\<open>analyzeDemandRefined\<close>, \<^verbatim>\<open>generatePurchasePlanRefined\<close>), the target quantity of
  a demand result is the forecast \<open>yhat\<close>, and every item of the plan is the budget-filtered
  proposal with the quantity \<^verbatim>\<open>calculateNewsvendorQuantity(yhat, 0.8 * yhat, 1.2 * yhat,
  holdingCost, shortageCost)\<close>, whose standard deviation is \<open>0.4 \<times> yhat / 3.92\<close>. Replacing
  the bounds \<open>lo\<close> and \<open>hi\<close> of the forecast records by anything changes neither the
  generated plan nor the plan the run returns.
\<close>

theorem refined_band:
  "map demandItemId (analyzeDemandRefined svc biz (newestPredictions allPredictions itemIds)) =
     map item_id (newestPredictions allPredictions itemIds)
   \<and> map targetQuantity (analyzeDemandRefined svc biz (newestPredictions allPredictions itemIds)) =
     map yhat (newestPredictions allPredictions itemIds)
   \<and> items (generatePurchasePlanRefined svc
        (analyzeDemandRefined svc biz (newestPredictions allPredictions itemIds))) =
     applyBudget (Fin (getCurrentBudget svc)) (Fin 0)
       (concat (map (ownProposal svc)
          (analyzeDemandRefined svc biz (newestPredictions allPredictions itemIds))))
   \<and> stdDevOf (mul (Fin y) (Fin 0.8)) (mul (Fin y) (Fin 1.2)) = Fin (0.4 * y / 3.92)
   \<and> generatePurchasePlanRefined svc (analyzeDemandRefined svc biz
        (newestPredictions (map (\<lambda>p. p\<lparr> lo := l p, hi := h p \<rparr>) allPredictions) itemIds)) =
     generatePurchasePlanRefined svc (analyzeDemandRefined svc biz
        (newestPredictions allPredictions itemIds))
   \<and> purchasePlan (runWorkflow svc
        (env\<lparr> scoredCsv := Inr (map (\<lambda>p. p\<lparr> lo := l p, hi := h p \<rparr>) allPredictions) \<rparr>)
        itemIds) =
     purchasePlan (runWorkflow svc (env\<lparr> scoredCsv := Inr allPredictions \<rparr>) itemIds)"
proof -
  have d: "distinct (map demandItemId
             (analyzeDemandRefined svc biz (newestPredictions allPredictions itemIds)))"
    by (simp only: analyze_ids distinct_newestPredictions)
  have s: "stdDevOf (mul (Fin y) (Fin 0.8)) (mul (Fin y) (Fin 1.2)) = Fin (0.4 * y / 3.92)"
    by (simp add: stdDevOf_def sub_def divide_def)
  show ?thesis
    by (simp only: analyze_ids generate_own [OF d] s plan_independent_of_bounds
        run_independent_of_bounds simp_thms)
qed

lemma example_quantity_11:
  "calculateNewsvendorQuantity (Fin 10) (Fin 8) (Fin 12) 12 3 = Fin 11"
  by (simp add: calculateNewsvendorQuantity_def criticalRatioOf_def purchasingPriceOf_def
      stdDevOf_def sub_def divide_def Let_def split1_def split2_def const1_def polyA_def polyB_def
      coefficients mathMax_def ceiling_eq_iff)

theorem refined_band_witness:
  "items (generatePurchasePlanRefined exampleService
        (analyzeDemandRefined exampleService []
           (newestPredictions exampleForecasts [''32/11/10532'']))) =
     [planItem ''32/11/10532'' ''Product'' 11 13]"
  using refined_band [of exampleService "[]" exampleForecasts "[''32/11/10532'']"]
  by (simp add: example_newest analyzeDemandRefined_def Let_def forecast_def ownProposal_def
      productIdOf_def exampleService_def exampleCosts_def example_quantity_11
      actualProductName_def itemIdToProductName_def planItem_def getCurrentBudget_def)

end
